theory Spec2Isabelle
  imports Complex_Main "HOL-Library.Multiset" "HOL-Library.Char_ord" "HOL-Library.List_Lexorder"
begin

section \<open>Hybrid retrieval, fusion, reranking and citation formatting\<close>

text \<open>
  A shallow embedding of the search core of the repository: \<open>search/fusion.py\<close>,
  \<open>search/reranker.py\<close>, \<open>search/citation.py\<close>, \<open>search/bm25_search.py\<close>,
  \<open>search/vector_search.py\<close> and \<open>search/hybrid_search.py\<close>.

  Python floats are idealised as real numbers: every score is a \<open>real\<close>, \<open>math.log1p c\<close>
  is \<open>ln (1 + c)\<close> and \<open>np.linalg.norm\<close> is the square root of the sum of squares.
  Exceptions are values of the type \<open>error\<close>; a function that can raise returns
  \<open>error + 'a\<close>.
\<close>

datatype error =
  ZeroDivisionError | ValueError | TypeError | KeyError | IndexError | AttributeError
  | ImportError | ConnectionError | DatabaseError

subsection \<open>Citation strings (\<open>search/citation.py\<close>)\<close>

text \<open>
  The dictionary read by \<open>_format_citation_string\<close>. Each field holds the text the
  f-string prints for it: \<open>authors\<close> is the list under the key \<open>authors\<close> (empty when the
  key is absent), \<open>year\<close> is \<open>n.d.\<close> when the key is absent, and \<open>doi\<close> is empty
  when the stored value is falsy.
\<close>

record citation =
  authors :: "string list"
  title :: string
  year :: string
  venue :: string
  doi :: string

text \<open>
  \<open>_format_citation_string\<close>: each style computes its own author summary \<open>author_str\<close>
  from the number of authors and puts it in front of the rest of the string.
\<close>

definition format_citation_string :: "citation \<Rightarrow> string \<Rightarrow> string" where
  \<open>format_citation_string c style =
     (if style = ''apa'' then
        (let author_str =
               (if authors c \<noteq> [] then
                  (if length (authors c) = 1 then authors c ! 0
                   else if length (authors c) = 2 then authors c ! 0 @ '' & '' @ authors c ! 1
                   else authors c ! 0 @ '' et al.'')
                else ''Unknown Author'');
             citation_str =
               author_str @ '' ('' @ year c @ ''). '' @ title c @ ''. '' @ venue c @ ''.''
         in if doi c \<noteq> [] then citation_str @ '' https://doi.org/'' @ doi c else citation_str)
      else if style = ''ieee'' then
        (let author_str =
               (if authors c \<noteq> [] then
                  (if length (authors c) = 1 then authors c ! 0
                   else authors c ! 0 @ '' et al.'')
                else ''Unknown Author'');
             citation_str =
               author_str @ '', "'' @ title c @ ''," '' @ venue c @ '', '' @ year c @ ''.''
         in if doi c \<noteq> [] then citation_str @ '' doi: '' @ doi c else citation_str)
      else if style = ''mla'' then
        (let author_str = (if authors c \<noteq> [] then authors c ! 0 else ''Unknown Author'')
         in author_str @ ''. "'' @ title c @ ''." '' @ venue c @ '', '' @ year c @ ''.'')
      else title c @ '' ('' @ year c @ '')'')\<close>

text \<open>
  The author-list rule of the specification: one author is the full name, two authors are
  joined by an ampersand, three or more are the first author followed by \<open>et al.\<close> The
  specification gives no summary for an empty list.
\<close>

fun spec_author_rule :: "string list \<Rightarrow> string option" where
  "spec_author_rule [] = None"
| "spec_author_rule [a] = Some a"
| "spec_author_rule [a, b] = Some (a @ '' & '' @ b)"
| "spec_author_rule (a # _) = Some (a @ '' et al.'')"

text \<open>
  The two other rules that occur: the first author followed by \<open>et al.\<close> as soon as there
  are two authors, and the first author alone.
\<close>

fun et_al_rule :: "string list \<Rightarrow> string option" where
  "et_al_rule [] = None"
| "et_al_rule [a] = Some a"
| "et_al_rule (a # _) = Some (a @ '' et al.'')"

fun first_author_rule :: "string list \<Rightarrow> string option" where
  "first_author_rule [] = None"
| "first_author_rule (a # _) = Some a"

text \<open>The summary a rule gives, \<open>Unknown Author\<close> for an empty author list.\<close>

definition summary_or_unknown :: "string option \<Rightarrow> string" where
  "summary_or_unknown r = (case r of None \<Rightarrow> ''Unknown Author'' | Some s \<Rightarrow> s)"

subsection \<open>Retrieved documents\<close>

text \<open>
  A search result is a Python dictionary. The keys the core reads are fields of a record;
  a key that may be absent is an \<open>option\<close>. The keys \<open>source\<close>,
  \<open>staff_profile_url\<close> and \<open>publication_id\<close> are copied unchanged by every function below
  and are left out. \<open>metadata\<close> holds the three entries of the chunk metadata that the
  reranker reads; an entry is \<open>None\<close> when the key is absent.
\<close>

text \<open>
  A value stored in the chunk metadata, which is JSON: the ingestion stores \<open>pub_year\<close>
  as a number, as a string or as \<open>None\<close>. \<open>as_int\<close> is the integer that arithmetic reads
  from a value (a boolean is an integer in Python), or the \<open>TypeError\<close> it raises;
  \<open>truthy\<close> is the truth value of a value in a condition.
\<close>

datatype json = JNull | JBool bool | JInt int | JStr string

definition as_int :: "json \<Rightarrow> error + int" where
  "as_int v =
     (case v of
        JInt i \<Rightarrow> Inr i
      | JBool b \<Rightarrow> Inr (if b then 1 else 0)
      | JNull \<Rightarrow> Inl TypeError
      | JStr s \<Rightarrow> Inl TypeError)"

definition truthy :: "json \<Rightarrow> bool" where
  "truthy v =
     (case v of
        JNull \<Rightarrow> False
      | JBool b \<Rightarrow> b
      | JInt i \<Rightarrow> i \<noteq> 0
      | JStr s \<Rightarrow> s \<noteq> [])"

record metadata =
  citations_count :: "json option"
  is_open_access :: "json option"
  pub_year :: "json option"

record doc =
  chunk_id :: string
  chunk_type :: string
  content :: string
  metadata :: metadata
  bm25_score :: "real option"
  vector_score :: "real option"
  rrf_score :: "real option"
  rerank_score :: "real option"
  final_score :: "real option"

text \<open>\<open>d.get(key, default)\<close> on an optional key.\<close>

definition get_or :: "'a \<Rightarrow> 'a option \<Rightarrow> 'a" where
  "get_or dflt v = (case v of None \<Rightarrow> dflt | Some x \<Rightarrow> x)"

text \<open>
  \<open>xs.sort(key=f, reverse=True)\<close> and \<open>sorted(xs, key=f, reverse=True)\<close>: a stable sort
  into descending key order (elements with equal keys keep their relative order).
\<close>

definition sort_desc :: "('a \<Rightarrow> real) \<Rightarrow> 'a list \<Rightarrow> 'a list" where
  "sort_desc f xs = sort_key (\<lambda>x. - f x) xs"

text \<open>The slice \<open>xs[:n]\<close> for an integer \<open>n\<close>: a negative \<open>n\<close> counts from the end.\<close>

definition py_take :: "int \<Rightarrow> 'a list \<Rightarrow> 'a list" where
  "py_take n xs = (if 0 \<le> n then take (nat n) xs else take (length xs - nat (- n)) xs)"

subsection \<open>Reciprocal rank fusion (\<open>search/fusion.py\<close>)\<close>

text \<open>
  \<open>rrf_scores\<close> is a \<open>defaultdict(float)\<close> and \<open>doc_info\<close> a dictionary; both keep their
  keys in insertion order, which is the order of \<open>rrf_scores.items()\<close>.
\<close>

type_synonym score_table = "(string \<times> real) list"
type_synonym doc_table = "(string \<times> doc) list"

text \<open>\<open>rrf_scores[chunk_id] += rrf_score\<close>; a new key starts from \<open>0.0\<close>.\<close>

fun add_score :: "string \<Rightarrow> real \<Rightarrow> score_table \<Rightarrow> score_table" where
  "add_score cid s [] = [(cid, 0 + s)]"
| "add_score cid s ((c, v) # rest) =
     (if c = cid then (c, v + s) # rest else (c, v) # add_score cid s rest)"

text \<open>\<open>if chunk_id not in doc_info: doc_info[chunk_id] = doc\<close>.\<close>

definition remember_doc :: "doc \<Rightarrow> doc_table \<Rightarrow> doc_table" where
  "remember_doc d info =
     (if map_of info (chunk_id d) = None then info @ [(chunk_id d, d)] else info)"

text \<open>
  The inner loop over \<open>enumerate(results, start=1)\<close>; \<open>1.0 / (k + rank)\<close> raises
  \<open>ZeroDivisionError\<close> when \<open>k + rank\<close> is zero.
\<close>

fun rrf_list :: "int \<Rightarrow> nat \<Rightarrow> doc list \<Rightarrow> score_table \<times> doc_table
    \<Rightarrow> error + score_table \<times> doc_table" where
  "rrf_list k rank [] st = Inr st"
| "rrf_list k rank (d # ds) (scores, info) =
     (if k + int rank = 0 then Inl ZeroDivisionError
      else rrf_list k (Suc rank) ds
             (add_score (chunk_id d) (1 / real_of_int (k + int rank)) scores,
              remember_doc d info))"

text \<open>The outer loop over \<open>results_lists\<close>.\<close>

fun rrf_lists :: "int \<Rightarrow> doc list list \<Rightarrow> score_table \<times> doc_table
    \<Rightarrow> error + score_table \<times> doc_table" where
  "rrf_lists k [] st = Inr st"
| "rrf_lists k (results # rest) st =
     (case rrf_list k 1 results st of
        Inl e \<Rightarrow> Inl e
      | Inr st' \<Rightarrow> rrf_lists k rest st')"

text \<open>
  The copy of the stored document with its fusion score; a per-signal score that the
  stored document lacks is set to \<open>0.0\<close>.
\<close>

definition fused_doc :: "doc \<Rightarrow> real \<Rightarrow> doc" where
  "fused_doc d s =
     d\<lparr>rrf_score := Some s,
       bm25_score := Some (get_or 0 (bm25_score d)),
       vector_score := Some (get_or 0 (vector_score d))\<rparr>"

text \<open>The loop over \<open>rrf_scores.items()\<close>; \<open>doc_info[chunk_id]\<close> raises on a missing key.\<close>

fun build_fused :: "score_table \<Rightarrow> doc_table \<Rightarrow> error + doc list" where
  "build_fused [] info = Inr []"
| "build_fused ((cid, s) # rest) info =
     (case map_of info cid of
        None \<Rightarrow> Inl KeyError
      | Some d \<Rightarrow>
          (case build_fused rest info of
             Inl e \<Rightarrow> Inl e
           | Inr ds \<Rightarrow> Inr (fused_doc d s # ds)))"

definition reciprocal_rank_fusion :: "doc list list \<Rightarrow> int \<Rightarrow> error + doc list" where
  "reciprocal_rank_fusion results_lists k =
     (case rrf_lists k results_lists ([], []) of
        Inl e \<Rightarrow> Inl e
      | Inr (scores, info) \<Rightarrow>
          (case build_fused scores info of
             Inl e \<Rightarrow> Inl e
           | Inr fused \<Rightarrow> Inr (sort_desc (\<lambda>d. get_or 0 (rrf_score d)) fused)))"

text \<open>
  The fusion score of the specification: a source list contributes \<open>1 / (k + rank)\<close> at
  every 1-based position \<open>rank\<close> that holds the chunk id, and nothing when the id is
  absent; the contributions of all source lists are added.
\<close>

definition spec_contribution :: "int \<Rightarrow> string \<Rightarrow> doc list \<Rightarrow> real" where
  "spec_contribution k cid results =
     (\<Sum>i\<leftarrow>[0..<length results].
        if chunk_id (results ! i) = cid then 1 / real_of_int (k + int i + 1) else 0)"

definition spec_fusion_score :: "int \<Rightarrow> string \<Rightarrow> doc list list \<Rightarrow> real" where
  "spec_fusion_score k cid results_lists =
     (\<Sum>results\<leftarrow>results_lists. spec_contribution k cid results)"

text \<open>Descending order of a key along a list.\<close>

definition ordered_desc :: "('a \<Rightarrow> real) \<Rightarrow> 'a list \<Rightarrow> bool" where
  "ordered_desc f xs = sorted_wrt (\<lambda>a b. f b \<le> f a) xs"

text \<open>No rank of any source list makes \<open>k + rank\<close> zero.\<close>

definition no_zero_rank :: "int \<Rightarrow> doc list list \<Rightarrow> bool" where
  "no_zero_rank k results_lists =
     list_all (\<lambda>results. \<not> (1 \<le> - k \<and> - k \<le> int (length results))) results_lists"

text \<open>
  Auxiliary functions for the proofs: the contribution of a list whose first element has
  the rank \<open>rank\<close>, the keys of a dictionary after inserting a sequence of keys that are
  new, and the invariant that every stored document sits under its own chunk id.
\<close>

fun contrib_from :: "int \<Rightarrow> nat \<Rightarrow> string \<Rightarrow> doc list \<Rightarrow> real" where
  "contrib_from k rank cid [] = 0"
| "contrib_from k rank cid (d # ds) =
     (if chunk_id d = cid then 1 / real_of_int (k + int rank) else 0)
       + contrib_from k (Suc rank) cid ds"

fun keys_after :: "string list \<Rightarrow> string list \<Rightarrow> string list" where
  "keys_after keys [] = keys"
| "keys_after keys (c # cs) = keys_after (if c \<in> set keys then keys else keys @ [c]) cs"

definition info_ok :: "doc_table \<Rightarrow> bool" where
  "info_ok info = list_all (\<lambda>(c, d). chunk_id d = c) info"

subsection \<open>Lexical searcher (\<open>search/bm25_search.py\<close>)\<close>

text \<open>
  A query is a list of code points below 256: a \<open>char\<close> stands for the Unicode character
  of that number (\<open>CHR 0xE9\<close> is the letter e with acute accent). \<open>isspace\<close> is the
  whitespace of \<open>str.split()\<close> and \<open>str.strip()\<close>, and \<open>isalnum\<close> is \<open>str.isalnum\<close>
  on one character, both as Python classifies these 256 code points.
\<close>

definition isspace :: "char \<Rightarrow> bool" where
  "isspace c = (let n = (of_char c :: nat) in
     (9 \<le> n \<and> n \<le> 13) \<or> (28 \<le> n \<and> n \<le> 32) \<or> n = 133 \<or> n = 160)"



text \<open>\<open>s.split()\<close>: the maximal runs of characters that are not whitespace.\<close>

fun split_from :: "string \<Rightarrow> string \<Rightarrow> string list" where
  "split_from cur [] = (if cur = [] then [] else [cur])"
| "split_from cur (c # cs) =
     (if isspace c then (if cur = [] then split_from [] cs else cur # split_from [] cs)
      else split_from (cur @ [c]) cs)"

definition split :: "string \<Rightarrow> string list" where
  "split s = split_from [] s"





text \<open>A row of the result set of the full-text query.\<close>

record bm25_row =
  row_chunk_id :: string
  row_chunk_type :: string
  row_content :: string
  row_chunk_metadata :: metadata
  row_bm25_score :: real

text \<open>The dictionary that \<open>search\<close> builds from a row.\<close>

definition bm25_result :: "bm25_row \<Rightarrow> doc" where
  "bm25_result row =
     \<lparr>chunk_id = row_chunk_id row, chunk_type = row_chunk_type row,
      content = row_content row, metadata = row_chunk_metadata row,
      bm25_score = Some (row_bm25_score row), vector_score = None, rrf_score = None,
      rerank_score = None, final_score = None\<rparr>"


subsection \<open>Cosine similarity (\<open>search/vector_search.py\<close>)\<close>

text \<open>
  A vector is a one-dimensional array of floats. \<open>np.dot\<close> raises \<open>ValueError\<close> when the
  two arrays differ in length. The division is written as a checked division, so that a
  division by zero would show as an error value.
\<close>

definition np_dot :: "real list \<Rightarrow> real list \<Rightarrow> error + real" where
  "np_dot v1 v2 =
     (if length v1 \<noteq> length v2 then Inl ValueError
      else Inr (\<Sum>(x, y)\<leftarrow>zip v1 v2. x * y))"

definition linalg_norm :: "real list \<Rightarrow> real" where
  "linalg_norm v = sqrt (\<Sum>x\<leftarrow>v. x * x)"

definition checked_div :: "real \<Rightarrow> real \<Rightarrow> error + real" where
  "checked_div a b = (if b = 0 then Inl ZeroDivisionError else Inr (a / b))"

definition fast_cosine_similarity :: "real list \<Rightarrow> real list \<Rightarrow> error + real" where
  "fast_cosine_similarity vec1 vec2 =
     (case np_dot vec1 vec2 of
        Inl e \<Rightarrow> Inl e
      | Inr dot_product \<Rightarrow>
          (let norm1 = linalg_norm vec1; norm2 = linalg_norm vec2
           in if norm1 = 0 \<or> norm2 = 0 then Inr 0
              else checked_div dot_product (norm1 * norm2)))"

definition cosine_similarity :: "real list \<Rightarrow> real list \<Rightarrow> error + real" where
  "cosine_similarity vec1 vec2 =
     (case np_dot vec1 vec2 of
        Inl e \<Rightarrow> Inl e
      | Inr dot_product \<Rightarrow>
          (let norm1 = linalg_norm vec1; norm2 = linalg_norm vec2
           in if norm1 = 0 \<or> norm2 = 0 then Inr 0
              else (case checked_div dot_product (norm1 * norm2) of
                      Inl e \<Rightarrow> Inl e
                    | Inr similarity \<Rightarrow> Inr similarity)))"

text \<open>The dictionary that the vector search builds for a hit.\<close>

definition vector_result :: "string \<Rightarrow> string \<Rightarrow> string \<Rightarrow> metadata \<Rightarrow> real \<Rightarrow> doc" where
  "vector_result cid ctype text md similarity =
     \<lparr>chunk_id = cid, chunk_type = ctype, content = text, metadata = md,
      bm25_score = None, vector_score = Some similarity, rrf_score = None,
      rerank_score = None, final_score = None\<rparr>"

subsection \<open>Reranker (\<open>search/reranker.py\<close>)\<close>

text \<open>
  A constructed \<open>Reranker\<close> has one of three model types. The scoring model and the
  Cohere client are outside the repository: \<open>predict query text\<close> is the score that the
  in-process model \<open>self.model.predict\<close> gives the pair, and \<open>cohere_rerank query texts
  top_n\<close> is the outcome of the network call \<open>self.client.rerank\<close>: the list of (index,
  relevance score) results, or the exception it raised.
\<close>

datatype model_type = Local | Cohere | OpenAI

record reranker =
  model_type :: model_type
  predict :: "string \<Rightarrow> string \<Rightarrow> real"
  cohere_rerank :: "string \<Rightarrow> string list \<Rightarrow> int \<Rightarrow> error + (nat \<times> real) list"

definition rerank_local :: "reranker \<Rightarrow> string \<Rightarrow> doc list \<Rightarrow> int \<Rightarrow> doc list" where
  "rerank_local r query documents top_k =
     (let scored = map (\<lambda>d. d\<lparr>rerank_score := Some (predict r query (content d))\<rparr>) documents;
          reranked = sort_desc (\<lambda>d. get_or 0 (rerank_score d)) scored
      in py_take top_k reranked)"

text \<open>The loop over \<open>response.results\<close>; \<open>documents[idx]\<close> raises on an index out of range.\<close>

fun cohere_collect :: "doc list \<Rightarrow> (nat \<times> real) list \<Rightarrow> error + doc list" where
  "cohere_collect documents [] = Inr []"
| "cohere_collect documents ((idx, score) # rest) =
     (if length documents \<le> idx then Inl IndexError
      else (case cohere_collect documents rest of
              Inl e \<Rightarrow> Inl e
            | Inr ds \<Rightarrow> Inr ((documents ! idx)\<lparr>rerank_score := Some score\<rparr> # ds)))"

definition rerank_cohere :: "reranker \<Rightarrow> string \<Rightarrow> doc list \<Rightarrow> int \<Rightarrow> error + doc list" where
  "rerank_cohere r query documents top_k =
     (case cohere_rerank r query (map content documents) top_k of
        Inl e \<Rightarrow> Inl e
      | Inr results \<Rightarrow> cohere_collect documents results)"

definition rerank_openai :: "reranker \<Rightarrow> string \<Rightarrow> doc list \<Rightarrow> int \<Rightarrow> doc list" where
  "rerank_openai r query documents top_k = py_take top_k documents"

definition rerank :: "reranker \<Rightarrow> string \<Rightarrow> doc list \<Rightarrow> int \<Rightarrow> error + doc list" where
  "rerank r query documents top_k =
     (if documents = [] then Inr []
      else (case model_type r of
              Local \<Rightarrow> Inr (rerank_local r query documents top_k)
            | Cohere \<Rightarrow> rerank_cohere r query documents top_k
            | OpenAI \<Rightarrow> Inr (rerank_openai r query documents top_k)))"

text \<open>
  \<open>boost_fields\<close> is a dictionary from field names to weights (empty for \<open>None\<close>). The three
  blocks of the boost loop follow; \<open>math.log1p\<close> raises \<open>ValueError\<close> at \<open>-1\<close> and below,
  and arithmetic on a value that is no number raises \<open>TypeError\<close>.
\<close>

type_synonym boost_fields = "(string \<times> real) list"

definition citations_boost :: "boost_fields \<Rightarrow> metadata \<Rightarrow> error + real" where
  "citations_boost boosts md =
     (case map_of boosts ''citations_count'' of
        None \<Rightarrow> Inr 0
      | Some w \<Rightarrow>
          (case as_int (get_or (JInt 0) (citations_count md)) of
             Inl e \<Rightarrow> Inl e
           | Inr citations \<Rightarrow>
               (if citations \<le> - 1 then Inl ValueError
                else Inr (w * ln (1 + real_of_int citations) / 10))))"

definition open_access_boost :: "boost_fields \<Rightarrow> metadata \<Rightarrow> real" where
  "open_access_boost boosts md =
     (case map_of boosts ''is_open_access'' of
        None \<Rightarrow> 0
      | Some w \<Rightarrow> (if truthy (get_or (JBool False) (is_open_access md)) then w else 0))"

definition year_boost :: "boost_fields \<Rightarrow> metadata \<Rightarrow> error + real" where
  "year_boost boosts md =
     (case map_of boosts ''publication_year'' of
        None \<Rightarrow> Inr 0
      | Some w \<Rightarrow>
          (case as_int (get_or (JInt 2000) (pub_year md)) of
             Inl e \<Rightarrow> Inl e
           | Inr yr \<Rightarrow>
               (let year_score = real_of_int (yr - 2000) / 25
                in Inr (w * year_score))))"

definition boost_score :: "boost_fields \<Rightarrow> metadata \<Rightarrow> error + real" where
  "boost_score boosts md =
     (case citations_boost boosts md of
        Inl e \<Rightarrow> Inl e
      | Inr cb \<Rightarrow>
          (case year_boost boosts md of
             Inl e \<Rightarrow> Inl e
           | Inr yb \<Rightarrow> Inr (0 + cb + open_access_boost boosts md + yb)))"

definition apply_boost :: "boost_fields \<Rightarrow> doc \<Rightarrow> error + doc" where
  "apply_boost boosts d =
     (case boost_score boosts (metadata d) of
        Inl e \<Rightarrow> Inl e
      | Inr b \<Rightarrow> Inr (d\<lparr>final_score := Some (get_or 0 (rerank_score d) + b)\<rparr>))"

fun apply_boosts :: "boost_fields \<Rightarrow> doc list \<Rightarrow> error + doc list" where
  "apply_boosts boosts [] = Inr []"
| "apply_boosts boosts (d # ds) =
     (case apply_boost boosts d of
        Inl e \<Rightarrow> Inl e
      | Inr d' \<Rightarrow>
          (case apply_boosts boosts ds of
             Inl e \<Rightarrow> Inl e
           | Inr ds' \<Rightarrow> Inr (d' # ds')))"

definition rerank_with_metadata ::
  "reranker \<Rightarrow> string \<Rightarrow> doc list \<Rightarrow> int \<Rightarrow> boost_fields \<Rightarrow> error + doc list" where
  "rerank_with_metadata r query documents top_k boosts =
     (case rerank r query documents (top_k * 2) of
        Inl e \<Rightarrow> Inl e
      | Inr reranked \<Rightarrow>
          (if boosts = [] then Inr (py_take top_k reranked)
           else (case apply_boosts boosts reranked of
                   Inl e \<Rightarrow> Inl e
                 | Inr boosted \<Rightarrow>
                     Inr (py_take top_k (sort_desc (\<lambda>d. get_or 0 (final_score d)) boosted)))))"

subsection \<open>Orchestrator (\<open>search/hybrid_search.py\<close>) and result formatting\<close>

text \<open>
  The part of a formatted result that does not need the database: the citation number,
  the chunk and the relevance scores. The bibliographic record under the key
  \<open>citation\<close> is read from the publication tables and is left out.
\<close>

record relevance_scores =
  bm25 :: real
  vector :: real
  rrf :: real
  rerank_value :: real
  final :: real

record formatted_result =
  citation_id :: nat
  result_chunk_id :: string
  result_chunk_type :: string
  relevance :: relevance_scores
  content_preview :: string
  content_full :: string

definition format_single_result :: "doc \<Rightarrow> nat \<Rightarrow> formatted_result" where
  "format_single_result result cid =
     \<lparr>citation_id = cid,
      result_chunk_id = chunk_id result,
      result_chunk_type = chunk_type result,
      relevance =
        \<lparr>bm25 = get_or 0 (bm25_score result),
         vector = get_or 0 (vector_score result),
         rrf = get_or 0 (rrf_score result),
         rerank_value = get_or 0 (rerank_score result),
         final = get_or (get_or (get_or 0 (rrf_score result)) (rerank_score result))
                   (final_score result)\<rparr>,
      content_preview =
        (if 500 < length (content result) then take 500 (content result) @ ''...''
         else content result),
      content_full = content result\<rparr>"

text \<open>\<open>format_results\<close>: the results numbered from 1.\<close>

definition format_results :: "doc list \<Rightarrow> formatted_result list" where
  "format_results results =
     map (\<lambda>(idx, result). format_single_result result (Suc idx)) (enumerate 0 results)"

text \<open>\<open>create_answer_with_citations\<close>, as far as the citations go.\<close>

definition create_answer_with_citations :: "doc list \<Rightarrow> int \<Rightarrow> formatted_result list" where
  "create_answer_with_citations results max_citations =
     format_results (py_take max_citations results)"

text \<open>
  The engine after \<open>__init__\<close>. \<open>constructed\<close> is the outcome of \<open>Reranker(model_type=...)\<close>:
  the reranker, or the exception that its construction raised, which \<open>__init__\<close> catches.
\<close>

record engine =
  use_reranker :: bool
  the_reranker :: "reranker option"

definition engine_init :: "bool \<Rightarrow> error + reranker \<Rightarrow> engine" where
  "engine_init use constructed =
     (if use then
        (case constructed of
           Inr r \<Rightarrow> \<lparr>use_reranker = True, the_reranker = Some r\<rparr>
         | Inl e \<Rightarrow> \<lparr>use_reranker = False, the_reranker = None\<rparr>)
      else \<lparr>use_reranker = False, the_reranker = None\<rparr>)"

record response =
  total_results :: nat
  returned_results :: nat
  citations :: "formatted_result list"
  reranked_flag :: bool

text \<open>The boosts that \<open>search\<close> passes to the reranker.\<close>

definition search_boosts :: boost_fields where
  "search_boosts =
     [(''citations_count'', 1 / 10), (''is_open_access'', 5 / 100), (''publication_year'', 5 / 100)]"

text \<open>
  \<open>HybridSearchEngine.search\<close>. The two searchers talk to the database and to the
  embedding provider; \<open>bm25_results\<close> and \<open>vector_results\<close> are what they returned or
  raised.
\<close>

definition hybrid_search ::
  "engine \<Rightarrow> error + doc list \<Rightarrow> error + doc list \<Rightarrow> string \<Rightarrow> int \<Rightarrow> error + response" where
  "hybrid_search eng bm25_results vector_results query top_k =
     (case bm25_results of
        Inl e \<Rightarrow> Inl e
      | Inr bm25s \<Rightarrow>
     (case vector_results of
        Inl e \<Rightarrow> Inl e
      | Inr vectors \<Rightarrow>
     (case reciprocal_rank_fusion [bm25s, vectors] 60 of
        Inl e \<Rightarrow> Inl e
      | Inr fused_results \<Rightarrow>
     (let candidate_results = py_take 80 fused_results
      in case (if use_reranker eng then
                 (case the_reranker eng of
                    None \<Rightarrow> Inl AttributeError
                  | Some r \<Rightarrow> rerank_with_metadata r query candidate_results top_k search_boosts)
               else Inr (py_take top_k candidate_results)) of
           Inl e \<Rightarrow> Inl e
         | Inr final_results \<Rightarrow>
             Inr \<lparr>total_results = length fused_results,
                  returned_results = length final_results,
                  citations = create_answer_with_citations final_results top_k,
                  reranked_flag = use_reranker eng\<rparr>))))"

subsection \<open>Sample search results\<close>

text \<open>
  A lexical hit is the dictionary that the BM25 searcher builds for a row, a vector hit
  the one that the vector searcher builds; both are abstracts of publications without
  metadata entries.
\<close>

definition no_metadata :: metadata where
  "no_metadata = \<lparr>citations_count = None, is_open_access = None, pub_year = None\<rparr>"

definition lexical_hit :: "string \<Rightarrow> real \<Rightarrow> doc" where
  "lexical_hit cid s =
     bm25_result \<lparr>row_chunk_id = cid, row_chunk_type = ''publication_abstract'',
       row_content = [], row_chunk_metadata = no_metadata, row_bm25_score = s\<rparr>"

definition vector_hit :: "string \<Rightarrow> real \<Rightarrow> doc" where
  "vector_hit cid s = vector_result cid ''publication_abstract'' [] no_metadata s"



text \<open>
  The ranking of the candidates by raw relevance score: every document with its
  \<open>rerank_score\<close> from the scoring model, highest first. \<open>rerank_local\<close> returns a prefix
  of it.
\<close>

definition rerank_ranking :: "reranker \<Rightarrow> string \<Rightarrow> doc list \<Rightarrow> doc list" where
  "rerank_ranking r query documents =
     sort_desc (\<lambda>d. get_or 0 (rerank_score d))
       (map (\<lambda>d. d\<lparr>rerank_score := Some (predict r query (content d))\<rparr>) documents)"

text \<open>A sample local reranker: the score of a pair is the length of the document text.\<close>

definition sample_reranker :: reranker where
  "sample_reranker =
     \<lparr>model_type = Local, predict = (\<lambda>query text. real (length text)),
      cohere_rerank = (\<lambda>query texts top_n. Inr [])\<rparr>"

text \<open>A Cohere reranker whose service cannot be reached: every call raises.\<close>

definition unreachable_cohere :: reranker where
  "unreachable_cohere =
     \<lparr>model_type = Cohere, predict = (\<lambda>query text. 0),
      cohere_rerank = (\<lambda>query texts top_n. Inl ConnectionError)\<rparr>"

text \<open>
  A publication chunk with metadata: one citation, open access, published in 2020, and
  a rerank score of 1.
\<close>

definition cited_hit :: doc where
  "cited_hit =
     (lexical_hit ''p1'' 1)
       \<lparr>metadata := \<lparr>citations_count = Some (JInt 1), is_open_access = Some (JBool True),
                      pub_year = Some (JInt 2020)\<rparr>,
        rerank_score := Some 1\<rparr>"

text \<open>
  A reranker of the \<open>openai\<close> type, which scores nothing; its \<open>predict\<close> field is the
  length of the text, as for the sample local reranker.
\<close>

definition openai_reranker :: reranker where
  "openai_reranker =
     \<lparr>model_type = OpenAI, predict = (\<lambda>query text. real (length text)),
      cohere_rerank = (\<lambda>query texts top_n. Inr [])\<rparr>"

section \<open>Properties of the citation formatter\<close>

lemma apa_summary:
  "(if as \<noteq> [] then
      (if length as = 1 then as ! 0
       else if length as = 2 then as ! 0 @ '' & '' @ as ! 1
       else as ! 0 @ '' et al.'')
    else ''Unknown Author'') = summary_or_unknown (spec_author_rule as)"
  by (induction as rule: spec_author_rule.induct) (simp_all add: summary_or_unknown_def)

lemma ieee_summary:
  "(if as \<noteq> [] then (if length as = 1 then as ! 0 else as ! 0 @ '' et al.'')
    else ''Unknown Author'') = summary_or_unknown (et_al_rule as)"
  by (induction as rule: et_al_rule.induct) (simp_all add: summary_or_unknown_def)

lemma mla_summary:
  "(if as \<noteq> [] then as ! 0 else ''Unknown Author'') = summary_or_unknown (first_author_rule as)"
  by (cases as) (simp_all add: summary_or_unknown_def)

lemma et_al_rule_agrees: "et_al_rule as = spec_author_rule as \<longleftrightarrow> length as \<noteq> 2"
  by (induction as rule: spec_author_rule.induct) simp_all

lemma first_author_rule_agrees: "first_author_rule as = spec_author_rule as \<longleftrightarrow> length as \<le> 1"
  by (induction as rule: spec_author_rule.induct) simp_all

text \<open>
  C8 (as amended). The citation string of each style is its author summary followed by
  the rest of the style's pattern. The summary follows the truncation rule of the
  specification in the APA style only. IEEE prints one author in full and two or more as
  the first author followed by \<open>et al.\<close>, which differs from the rule exactly for two
  authors; MLA always prints the first author alone, which differs from the rule for two
  or more authors. Every style prints \<open>Unknown Author\<close> for an empty list.
\<close>

theorem author_summary_by_style:
  \<open>format_citation_string c ''apa'' =
       summary_or_unknown (spec_author_rule (authors c))
         @ '' ('' @ year c @ ''). '' @ title c @ ''. '' @ venue c @ ''.''
         @ (if doi c = [] then [] else '' https://doi.org/'' @ doi c)
   \<and> format_citation_string c ''ieee'' =
       summary_or_unknown (et_al_rule (authors c))
         @ '', "'' @ title c @ ''," '' @ venue c @ '', '' @ year c @ ''.''
         @ (if doi c = [] then [] else '' doi: '' @ doi c)
   \<and> format_citation_string c ''mla'' =
       summary_or_unknown (first_author_rule (authors c))
         @ ''. "'' @ title c @ ''." '' @ venue c @ '', '' @ year c @ ''.''
   \<and> (et_al_rule (authors c) = spec_author_rule (authors c)) = (length (authors c) \<noteq> 2)
   \<and> (first_author_rule (authors c) = spec_author_rule (authors c)) = (length (authors c) \<le> 1)\<close>
proof -
  have apa: \<open>format_citation_string c ''apa'' =
       summary_or_unknown (spec_author_rule (authors c))
         @ '' ('' @ year c @ ''). '' @ title c @ ''. '' @ venue c @ ''.''
         @ (if doi c = [] then [] else '' https://doi.org/'' @ doi c)\<close>
    unfolding format_citation_string_def Let_def apa_summary by simp
  have ieee: \<open>format_citation_string c ''ieee'' =
       summary_or_unknown (et_al_rule (authors c))
         @ '', "'' @ title c @ ''," '' @ venue c @ '', '' @ year c @ ''.''
         @ (if doi c = [] then [] else '' doi: '' @ doi c)\<close>
    unfolding format_citation_string_def Let_def ieee_summary by simp
  have mla: \<open>format_citation_string c ''mla'' =
       summary_or_unknown (first_author_rule (authors c))
         @ ''. "'' @ title c @ ''." '' @ venue c @ '', '' @ year c @ ''.''\<close>
    unfolding format_citation_string_def Let_def mla_summary by simp
  show ?thesis
    using apa ieee mla et_al_rule_agrees[of "authors c"] first_author_rule_agrees[of "authors c"]
    by (intro conjI)
qed

text \<open>
  C8 (as stated) fails: for the authors Alice and Bob the rule of the specification gives
  \<open>Alice & Bob\<close>, and only the APA string has it; the IEEE string has \<open>Alice et al.\<close> and
  the MLA string \<open>Alice\<close> as its author summary.
\<close>

theorem author_summary_counterexample:
  \<open>spec_author_rule [''Alice'', ''Bob''] = Some ''Alice & Bob''
   \<and> format_citation_string
        \<lparr>authors = [''Alice'', ''Bob''], title = ''T'', year = ''2020'', venue = ''V'', doi = []\<rparr>
        ''apa'' = ''Alice & Bob (2020). T. V.''
   \<and> format_citation_string
        \<lparr>authors = [''Alice'', ''Bob''], title = ''T'', year = ''2020'', venue = ''V'', doi = []\<rparr>
        ''ieee'' = ''Alice et al., "T," V, 2020.''
   \<and> format_citation_string
        \<lparr>authors = [''Alice'', ''Bob''], title = ''T'', year = ''2020'', venue = ''V'', doi = []\<rparr>
        ''mla'' = ''Alice. "T." V, 2020.''\<close>
  by (simp add: format_citation_string_def)

section \<open>Properties of the fusion\<close>

subsection \<open>The two dictionaries\<close>

lemma get_or_add_score:
  "get_or 0 (map_of (add_score c s t) c') = get_or 0 (map_of t c') + (if c' = c then s else 0)"
  by (induction c s t rule: add_score.induct) (auto simp: get_or_def)

lemma keys_add_score:
  "map fst (add_score c s t) = (if c \<in> set (map fst t) then map fst t else map fst t @ [c])"
  by (induction c s t rule: add_score.induct) auto

lemma keys_remember_doc:
  "map fst (remember_doc d info) =
     (if chunk_id d \<in> set (map fst info) then map fst info else map fst info @ [chunk_id d])"
  by (auto simp: remember_doc_def map_of_eq_None_iff)

lemma info_ok_remember: "info_ok info \<Longrightarrow> info_ok (remember_doc d info)"
  by (simp add: info_ok_def remember_doc_def)

lemma map_of_remember_doc:
  "map_of (remember_doc d info) c =
     (case map_of info c of Some d' \<Rightarrow> Some d' | None \<Rightarrow> if chunk_id d = c then Some d else None)"
  by (auto simp: remember_doc_def map_add_def split: option.splits)

lemma contrib_from_sum:
  "contrib_from k rank cid ds =
     (\<Sum>i\<leftarrow>[0..<length ds].
        if chunk_id (ds ! i) = cid then 1 / real_of_int (k + int rank + int i) else 0)"
proof (induction ds arbitrary: rank)
  case Nil
  then show ?case by simp
next
  case (Cons d ds)
  have "[0..<length (d # ds)] = 0 # map Suc [0..<length ds]"
    by (simp add: upt_conv_Cons map_Suc_upt del: upt_Suc)
  then show ?case
    by (simp add: Cons.IH comp_def ac_simps del: upt_Suc cong: if_cong)
qed

lemma spec_contribution_from: "spec_contribution k cid ds = contrib_from k 1 cid ds"
  by (simp add: spec_contribution_def contrib_from_sum ac_simps cong: if_cong)

lemma rrf_list_result:
  assumes "\<forall>i<length ds. k + int rank + int i \<noteq> 0"
  shows "\<exists>scores' info'. rrf_list k rank ds (scores, info) = Inr (scores', info')
     \<and> (\<forall>c. get_or 0 (map_of scores' c) = get_or 0 (map_of scores c) + contrib_from k rank c ds)
     \<and> map fst scores' = keys_after (map fst scores) (map chunk_id ds)
     \<and> map fst info' = keys_after (map fst info) (map chunk_id ds)
     \<and> (\<forall>c. map_of info' c =
          (case map_of info c of Some d' \<Rightarrow> Some d' | None \<Rightarrow> find (\<lambda>d. chunk_id d = c) ds))
     \<and> (info_ok info \<longrightarrow> info_ok info')"
  using assms
proof (induction ds arbitrary: rank scores info)
  case Nil
  then show ?case by (simp split: option.splits)
next
  case (Cons d ds)
  let ?s = "add_score (chunk_id d) (1 / real_of_int (k + int rank)) scores"
  let ?i = "remember_doc d info"
  have nz: "k + int rank \<noteq> 0" using Cons.prems by force
  have rest: "\<forall>i<length ds. k + int (Suc rank) + int i \<noteq> 0"
  proof (intro allI impI)
    fix i assume "i < length ds"
    then have "Suc i < length (d # ds)" by simp
    then have "k + int rank + int (Suc i) \<noteq> 0" using Cons.prems by blast
    then show "k + int (Suc rank) + int i \<noteq> 0" by simp
  qed
  obtain scores' info' where r:
    "rrf_list k (Suc rank) ds (?s, ?i) = Inr (scores', info')"
    "\<forall>c. get_or 0 (map_of scores' c) = get_or 0 (map_of ?s c) + contrib_from k (Suc rank) c ds"
    "map fst scores' = keys_after (map fst ?s) (map chunk_id ds)"
    "map fst info' = keys_after (map fst ?i) (map chunk_id ds)"
    "\<forall>c. map_of info' c =
          (case map_of ?i c of Some d' \<Rightarrow> Some d' | None \<Rightarrow> find (\<lambda>d. chunk_id d = c) ds)"
    "info_ok ?i \<longrightarrow> info_ok info'"
    using Cons.IH[OF rest] by blast
  have m: "\<forall>c. map_of info' c =
          (case map_of info c of Some d' \<Rightarrow> Some d' | None \<Rightarrow> find (\<lambda>d. chunk_id d = c) (d # ds))"
    using r(5) by (simp add: map_of_remember_doc split: option.splits)
  show ?case
    using nz r(1-4,6) m
    by (auto simp: get_or_add_score keys_add_score keys_remember_doc info_ok_remember)
qed

lemma keys_after_append: "keys_after ks (a @ b) = keys_after (keys_after ks a) b"
  by (induction a arbitrary: ks) simp_all

lemma set_keys_after: "set (keys_after ks cs) = set ks \<union> set cs"
  by (induction cs arbitrary: ks) auto

lemma distinct_keys_after: "distinct ks \<Longrightarrow> distinct (keys_after ks cs)"
  by (induction cs arbitrary: ks) auto

lemma find_append:
  "find P (xs @ ys) = (case find P xs of Some x \<Rightarrow> Some x | None \<Rightarrow> find P ys)"
  by (induction xs) simp_all

lemma rrf_lists_result:
  assumes "no_zero_rank k ls"
  shows "\<exists>scores' info'. rrf_lists k ls (scores, info) = Inr (scores', info')
     \<and> (\<forall>c. get_or 0 (map_of scores' c) =
            get_or 0 (map_of scores c) + (\<Sum>xs\<leftarrow>ls. contrib_from k 1 c xs))
     \<and> map fst scores' = keys_after (map fst scores) (map chunk_id (concat ls))
     \<and> map fst info' = keys_after (map fst info) (map chunk_id (concat ls))
     \<and> (\<forall>c. map_of info' c =
          (case map_of info c of Some d' \<Rightarrow> Some d'
           | None \<Rightarrow> find (\<lambda>d. chunk_id d = c) (concat ls)))
     \<and> (info_ok info \<longrightarrow> info_ok info')"
  using assms
proof (induction ls arbitrary: scores info)
  case Nil
  then show ?case by (simp split: option.splits)
next
  case (Cons xs ls)
  have "\<not> (1 \<le> - k \<and> - k \<le> int (length xs))" and rest: "no_zero_rank k ls"
    using Cons.prems by (simp_all add: no_zero_rank_def)
  then have nz: "\<forall>i<length xs. k + int 1 + int i \<noteq> 0" by auto
  obtain s1 i1 where a:
    "rrf_list k 1 xs (scores, info) = Inr (s1, i1)"
    "\<forall>c. get_or 0 (map_of s1 c) = get_or 0 (map_of scores c) + contrib_from k 1 c xs"
    "map fst s1 = keys_after (map fst scores) (map chunk_id xs)"
    "map fst i1 = keys_after (map fst info) (map chunk_id xs)"
    "\<forall>c. map_of i1 c =
          (case map_of info c of Some d' \<Rightarrow> Some d' | None \<Rightarrow> find (\<lambda>d. chunk_id d = c) xs)"
    "info_ok info \<longrightarrow> info_ok i1"
    using rrf_list_result[OF nz, of scores info] by blast
  obtain s2 i2 where b:
    "rrf_lists k ls (s1, i1) = Inr (s2, i2)"
    "\<forall>c. get_or 0 (map_of s2 c) = get_or 0 (map_of s1 c) + (\<Sum>xs\<leftarrow>ls. contrib_from k 1 c xs)"
    "map fst s2 = keys_after (map fst s1) (map chunk_id (concat ls))"
    "map fst i2 = keys_after (map fst i1) (map chunk_id (concat ls))"
    "\<forall>c. map_of i2 c =
          (case map_of i1 c of Some d' \<Rightarrow> Some d'
           | None \<Rightarrow> find (\<lambda>d. chunk_id d = c) (concat ls))"
    "info_ok i1 \<longrightarrow> info_ok i2"
    using Cons.IH[OF rest, of s1 i1] by blast
  have m: "\<forall>c. map_of i2 c =
          (case map_of info c of Some d' \<Rightarrow> Some d'
           | None \<Rightarrow> find (\<lambda>d. chunk_id d = c) (concat (xs # ls)))"
    using a(5) b(5) by (simp add: find_append split: option.splits)
  show ?case
    using a(1-4,6) b(1-4,6) m by (simp add: keys_after_append)
qed


lemma build_fused_result:
  assumes "set (map fst scores) \<subseteq> set (map fst info)"
  shows "\<exists>fused. build_fused scores info = Inr fused
     \<and> fused = map (\<lambda>(c, s). fused_doc (the (map_of info c)) s) scores"
  using assms
proof (induction scores)
  case Nil
  then show ?case by simp
next
  case (Cons p scores)
  obtain c s where p: "p = (c, s)" by (cases p)
  have "c \<in> fst ` set info" using Cons.prems p by auto
  then obtain d where d: "map_of info c = Some d"
    by (metis map_of_eq_None_iff not_Some_eq)
  obtain fused where f: "build_fused scores info = Inr fused"
      "fused = map (\<lambda>(c, s). fused_doc (the (map_of info c)) s) scores"
    using Cons by auto
  show ?case using p d f by simp
qed

lemma info_ok_chunk_id: "info_ok info \<Longrightarrow> map_of info c = Some d \<Longrightarrow> chunk_id d = c"
  by (induction info) (auto simp: info_ok_def split: if_splits)

lemma chunk_id_fused_doc [simp]: "chunk_id (fused_doc d s) = chunk_id d"
  by (simp add: fused_doc_def)

lemma rrf_score_fused_doc [simp]: "rrf_score (fused_doc d s) = Some s"
  by (simp add: fused_doc_def)

lemma set_sort_desc [simp]: "set (sort_desc f xs) = set xs"
  by (simp add: sort_desc_def)

lemma length_sort_desc [simp]: "length (sort_desc f xs) = length xs"
  by (simp add: sort_desc_def)

lemma distinct_map_sort_desc: "distinct (map g (sort_desc f xs)) = distinct (map g xs)"
proof -
  have "mset (map g (sort_desc f xs)) = mset (map g xs)"
    by (simp add: sort_desc_def)
  then show ?thesis by (metis distinct_count_atmost_1 set_mset_mset)
qed

lemma ordered_desc_sort_desc: "ordered_desc f (sort_desc f xs)"
proof -
  have "sorted (map (\<lambda>x. - f x) (sort_key (\<lambda>x. - f x) xs))"
    by (rule sorted_sort_key)
  then have "sorted_wrt (\<lambda>a b. - f a \<le> - f b) (sort_key (\<lambda>x. - f x) xs)"
    by (simp add: sorted_map)
  then show ?thesis by (simp add: ordered_desc_def sort_desc_def)
qed

lemma map_of_key_score:
  "distinct (map fst scores) \<Longrightarrow> (c, s) \<in> set scores \<Longrightarrow> get_or 0 (map_of scores c) = s"
  by (simp add: get_or_def)

text \<open>What the fusion returns on every input that raises no error.\<close>

lemma rrf_facts:
  assumes "no_zero_rank k ls"
  shows "\<exists>fused. reciprocal_rank_fusion ls k = Inr fused
     \<and> (\<forall>d\<in>set fused. rrf_score d = Some (spec_fusion_score k (chunk_id d) ls))
     \<and> (\<forall>d\<in>set fused. \<exists>d0. find (\<lambda>x. chunk_id x = chunk_id d) (concat ls) = Some d0
            \<and> d = fused_doc d0 (spec_fusion_score k (chunk_id d) ls))
     \<and> distinct (map chunk_id fused)
     \<and> set (map chunk_id fused) = set (map chunk_id (concat ls))
     \<and> ordered_desc (\<lambda>d. get_or 0 (rrf_score d)) fused"
proof -
  obtain scores info where r:
    "rrf_lists k ls ([], []) = Inr (scores, info)"
    and score: "\<And>c. get_or 0 (map_of scores c) = (\<Sum>xs\<leftarrow>ls. contrib_from k 1 c xs)"
    and ks: "map fst scores = keys_after [] (map chunk_id (concat ls))"
    and ki: "map fst info = keys_after [] (map chunk_id (concat ls))"
    and info: "\<And>c. map_of info c = find (\<lambda>d. chunk_id d = c) (concat ls)"
    using rrf_lists_result[OF assms, of "[]" "[]"] by (auto simp: get_or_def)
  have score': "\<And>c. get_or 0 (map_of scores c) = spec_fusion_score k c ls"
    using score by (simp add: spec_fusion_score_def spec_contribution_from)
  have keys: "map fst scores = map fst info" using ks ki by simp
  have dist: "distinct (map fst scores)" using ks by (simp add: distinct_keys_after)
  have kset: "set (map fst scores) = set (map chunk_id (concat ls))"
    using ks by (simp add: set_keys_after)
  let ?mk = "\<lambda>(c, s). fused_doc (the (map_of info c)) s"
  obtain fused where f: "build_fused scores info = Inr fused" "fused = map ?mk scores"
    using build_fused_result[of scores info] keys by auto
  have entry: "chunk_id (?mk p) = fst p
      \<and> (\<exists>d0. find (\<lambda>x. chunk_id x = fst p) (concat ls) = Some d0
            \<and> ?mk p = fused_doc d0 (spec_fusion_score k (fst p) ls))"
    if "p \<in> set scores" for p
  proof -
    obtain c s where p: "p = (c, s)" by (cases p)
    have "c \<in> fst ` set info" using that p keys by (metis fst_conv image_eqI list.set_map)
    then obtain d0 where d0: "map_of info c = Some d0"
      by (metis map_of_eq_None_iff not_Some_eq)
    then have fd: "find (\<lambda>x. chunk_id x = c) (concat ls) = Some d0" using info by simp
    then have cid: "chunk_id d0 = c" by (auto simp: find_Some_iff)
    have "s = spec_fusion_score k c ls"
      using map_of_key_score[OF dist] that p score' by metis
    then show ?thesis using p d0 fd cid by simp
  qed
  have ids: "map chunk_id fused = map fst scores"
    using f(2) entry by (simp add: comp_def cong: map_cong)
  have res: "reciprocal_rank_fusion ls k = Inr (sort_desc (\<lambda>d. get_or 0 (rrf_score d)) fused)"
    using r f(1) by (simp add: reciprocal_rank_fusion_def)
  have each: "\<forall>d\<in>set fused. \<exists>d0. find (\<lambda>x. chunk_id x = chunk_id d) (concat ls) = Some d0
            \<and> d = fused_doc d0 (spec_fusion_score k (chunk_id d) ls)"
    using f(2) entry by force
  then have sc: "\<forall>d\<in>set fused. rrf_score d = Some (spec_fusion_score k (chunk_id d) ls)"
    by (metis rrf_score_fused_doc)
  have idset: "set (map chunk_id fused) = set (map chunk_id (concat ls))"
    using kset ids by simp
  have iddist: "distinct (map chunk_id fused)"
    using dist ids by simp
  let ?out = "sort_desc (\<lambda>d. get_or 0 (rrf_score d)) fused"
  have so: "set ?out = set fused" by simp
  have "set (map chunk_id ?out) = set (map chunk_id (concat ls))"
    using idset so by (metis set_map)
  moreover have "distinct (map chunk_id ?out)"
    using iddist by (simp add: distinct_map_sort_desc)
  moreover have "ordered_desc (\<lambda>d. get_or 0 (rrf_score d)) ?out"
    by (rule ordered_desc_sort_desc)
  ultimately show ?thesis
    using res each sc so by auto
qed

subsection \<open>Unfolding rules for concrete inputs\<close>

lemmas rrf_eval =
  reciprocal_rank_fusion_def remember_doc_def fused_doc_def sort_desc_def get_or_def
  bm25_result_def vector_result_def lexical_hit_def vector_hit_def no_metadata_def

subsection \<open>Fusion score and order\<close>

text \<open>
  C1. For every list of source lists and every \<open>k\<close> for which no \<open>k + rank\<close> is zero
  (every \<open>k \<ge> 0\<close> in particular), the fusion returns a list that holds exactly the chunk
  ids of the source lists, gives each the sum over the source lists of \<open>1 / (k + rank)\<close>
  at its 1-based position (nothing for a list it is absent from), and is ordered by
  fusion score, highest first.
\<close>

theorem rrf_fusion_score:
  assumes "no_zero_rank k results_lists"
  shows "\<exists>fused. reciprocal_rank_fusion results_lists k = Inr fused
     \<and> set (map chunk_id fused) = set (map chunk_id (concat results_lists))
     \<and> (\<forall>d\<in>set fused. rrf_score d = Some (spec_fusion_score k (chunk_id d) results_lists))
     \<and> ordered_desc (\<lambda>d. get_or 0 (rrf_score d)) fused"
  using rrf_facts[OF assms] by blast

text \<open>
  The example of the specification: with \<open>k = 60\<close>, the chunk at rank 3 of the first
  list and rank 1 of the second gets \<open>1/63 + 1/61\<close> and comes first.
\<close>

theorem rrf_fusion_score_witness:
  "no_zero_rank 60
     [[lexical_hit ''a1'' 3, lexical_hit ''a2'' 2, lexical_hit ''x'' 1],
      [vector_hit ''x'' (9 / 10), vector_hit ''b2'' (1 / 2)]]
   \<and> spec_fusion_score 60 ''x''
       [[lexical_hit ''a1'' 3, lexical_hit ''a2'' 2, lexical_hit ''x'' 1],
        [vector_hit ''x'' (9 / 10), vector_hit ''b2'' (1 / 2)]] = 1 / 63 + 1 / 61
   \<and> (\<exists>fused. reciprocal_rank_fusion
         [[lexical_hit ''a1'' 3, lexical_hit ''a2'' 2, lexical_hit ''x'' 1],
          [vector_hit ''x'' (9 / 10), vector_hit ''b2'' (1 / 2)]] 60 = Inr fused
        \<and> map (\<lambda>d. (chunk_id d, rrf_score d)) fused =
            [(''x'', Some (1 / 63 + 1 / 61)), (''a1'', Some (1 / 61)),
             (''a2'', Some (1 / 62)), (''b2'', Some (1 / 62))])"
proof -
  let ?ls = "[[lexical_hit ''a1'' 3, lexical_hit ''a2'' 2, lexical_hit ''x'' 1],
      [vector_hit ''x'' (9 / 10), vector_hit ''b2'' (1 / 2)]]"
  have h: "no_zero_rank 60 ?ls" by (simp add: no_zero_rank_def)
  have s: "spec_fusion_score 60 ''x'' ?ls = 1 / 63 + 1 / 61"
    by (simp add: spec_fusion_score_def spec_contribution_def rrf_eval upt_rec nth_Cons')
  have e: "map (\<lambda>d. (chunk_id d, rrf_score d)) (projr (reciprocal_rank_fusion ?ls 60)) =
            [(''x'', Some (1 / 63 + 1 / 61)), (''a1'', Some (1 / 61)),
             (''a2'', Some (1 / 62)), (''b2'', Some (1 / 62))]"
    by (simp add: rrf_eval)
  show ?thesis
    using h s e rrf_fusion_score[OF h] by auto
qed

subsection \<open>Deduplication\<close>

text \<open>Every chunk id of the source lists occurs exactly once in the fused list.\<close>

lemma rrf_each_chunk_once:
  assumes "no_zero_rank k results_lists"
  shows "\<exists>fused. reciprocal_rank_fusion results_lists k = Inr fused
     \<and> distinct (map chunk_id fused)
     \<and> set (map chunk_id fused) = set (map chunk_id (concat results_lists))"
proof -
  from rrf_facts[OF assms]
  obtain fused where all: "reciprocal_rank_fusion results_lists k = Inr fused
     \<and> (\<forall>d\<in>set fused. rrf_score d = Some (spec_fusion_score k (chunk_id d) results_lists))
     \<and> (\<forall>d\<in>set fused. \<exists>d0. find (\<lambda>x. chunk_id x = chunk_id d) (concat results_lists) = Some d0
            \<and> d = fused_doc d0 (spec_fusion_score k (chunk_id d) results_lists))
     \<and> distinct (map chunk_id fused)
     \<and> set (map chunk_id fused) = set (map chunk_id (concat results_lists))
     \<and> ordered_desc (\<lambda>d. get_or 0 (rrf_score d)) fused" ..
  then show ?thesis by (intro exI[of _ fused]) simp
qed

subsection \<open>A chunk found by both searchers\<close>

text \<open>
  C2. The fused record of a chunk that both lists hold is the record of its first
  occurrence: here the chunk \<open>x\<close> has the lexical score 1 and the vector score 9/10, and
  its fused record carries the lexical score and the default 0 as its vector score.
\<close>

theorem rrf_loses_second_score:
  "reciprocal_rank_fusion [[lexical_hit ''x'' 1], [vector_hit ''x'' (9 / 10)]] 60 =
     Inr [\<lparr>chunk_id = ''x'', chunk_type = ''publication_abstract'', content = [],
           metadata = no_metadata, bm25_score = Some 1, vector_score = Some 0,
           rrf_score = Some (1 / 61 + 1 / 61), rerank_score = None, final_score = None\<rparr>]"
  by (simp add: reciprocal_rank_fusion_def remember_doc_def fused_doc_def sort_desc_def get_or_def
      bm25_result_def vector_result_def lexical_hit_def vector_hit_def)

section \<open>Properties of the lexical searcher\<close>













section \<open>Properties of the cosine similarity\<close>

lemma checked_div_nonzero: "b \<noteq> 0 \<Longrightarrow> checked_div a b = Inr (a / b)"
  by (simp add: checked_div_def)

lemma fast_cosine_cases:
  "fast_cosine_similarity v1 v2 =
     (if length v1 \<noteq> length v2 then Inl ValueError
      else if linalg_norm v1 = 0 \<or> linalg_norm v2 = 0 then Inr 0
      else Inr ((\<Sum>(x, y)\<leftarrow>zip v1 v2. x * y) / (linalg_norm v1 * linalg_norm v2)))"
  by (simp add: fast_cosine_similarity_def np_dot_def Let_def checked_div_nonzero)

lemma cosine_cases:
  "cosine_similarity v1 v2 =
     (if length v1 \<noteq> length v2 then Inl ValueError
      else if linalg_norm v1 = 0 \<or> linalg_norm v2 = 0 then Inr 0
      else Inr ((\<Sum>(x, y)\<leftarrow>zip v1 v2. x * y) / (linalg_norm v1 * linalg_norm v2)))"
  by (simp add: cosine_similarity_def np_dot_def Let_def checked_div_nonzero)

text \<open>
  C9 (as amended). Neither helper ever reaches a division by zero, whatever the two
  vectors are. On two vectors of the same dimension both return a value: 0 when either
  norm is zero, the normalised dot product otherwise. On vectors of different dimensions
  \<open>np.dot\<close> raises \<open>ValueError\<close> before the norms are looked at, so the helpers are not
  total.
\<close>

theorem cosine_similarity_division_safe:
  "fast_cosine_similarity v1 v2 \<noteq> Inl ZeroDivisionError
   \<and> cosine_similarity v1 v2 \<noteq> Inl ZeroDivisionError
   \<and> (length v1 = length v2 \<longrightarrow>
        (\<exists>r. fast_cosine_similarity v1 v2 = Inr r \<and> cosine_similarity v1 v2 = Inr r))
   \<and> (length v1 = length v2 \<and> (linalg_norm v1 = 0 \<or> linalg_norm v2 = 0) \<longrightarrow>
        fast_cosine_similarity v1 v2 = Inr 0 \<and> cosine_similarity v1 v2 = Inr 0)
   \<and> (length v1 = length v2 \<and> linalg_norm v1 \<noteq> 0 \<and> linalg_norm v2 \<noteq> 0 \<longrightarrow>
        cosine_similarity v1 v2 =
          Inr ((\<Sum>(x, y)\<leftarrow>zip v1 v2. x * y) / (linalg_norm v1 * linalg_norm v2)))
   \<and> (length v1 \<noteq> length v2 \<longrightarrow>
        fast_cosine_similarity v1 v2 = Inl ValueError \<and> cosine_similarity v1 v2 = Inl ValueError)"
  by (simp add: fast_cosine_cases cosine_cases)

theorem cosine_similarity_division_safe_witness:
  "length [0, 0 :: real] = length [3, 4 :: real]
   \<and> linalg_norm [0, 0] = 0
   \<and> fast_cosine_similarity [0, 0] [3, 4] = Inr 0
   \<and> cosine_similarity [0, 0] [3, 4] = Inr 0
   \<and> fast_cosine_similarity [3, 4] [3, 4] \<noteq> Inl ZeroDivisionError"
proof -
  have n: "linalg_norm [0, 0] = 0" by (simp add: linalg_norm_def)
  show ?thesis
    using n cosine_similarity_division_safe[of "[0, 0]" "[3, 4]"]
      cosine_similarity_division_safe[of "[3, 4]" "[3, 4]"]
    by simp
qed

text \<open>
  C9 (as stated) fails: a vector of zero norm against a vector of another dimension gives
  no 0.0; both helpers raise \<open>ValueError\<close>.
\<close>

theorem cosine_similarity_counterexample:
  "linalg_norm [0, 0] = 0
   \<and> fast_cosine_similarity [0, 0] [1, 2, 3] = Inl ValueError
   \<and> cosine_similarity [0, 0] [1, 2, 3] = Inl ValueError"
  by (simp add: linalg_norm_def fast_cosine_similarity_def cosine_similarity_def np_dot_def)

section \<open>Properties of the metadata boosts\<close>

lemma apply_boost_final:
  assumes "apply_boost boosts d = Inr d'"
  shows "\<exists>cb yb. citations_boost boosts (metadata d) = Inr cb
      \<and> year_boost boosts (metadata d) = Inr yb
      \<and> d' = d\<lparr>final_score := Some (get_or 0 (rerank_score d)
                 + (0 + cb + open_access_boost boosts (metadata d) + yb))\<rparr>"
proof -
  obtain b where b: "boost_score boosts (metadata d) = Inr b"
    using assms by (cases "boost_score boosts (metadata d)") (simp_all add: apply_boost_def)
  obtain cb where cb: "citations_boost boosts (metadata d) = Inr cb"
    using b by (cases "citations_boost boosts (metadata d)") (simp_all add: boost_score_def)
  obtain yb where yb: "year_boost boosts (metadata d) = Inr yb"
    using b cb by (cases "year_boost boosts (metadata d)") (simp_all add: boost_score_def)
  have "b = 0 + cb + open_access_boost boosts (metadata d) + yb"
    using b cb yb by (simp add: boost_score_def)
  then have "d' = d\<lparr>final_score := Some (get_or 0 (rerank_score d)
                 + (0 + cb + open_access_boost boosts (metadata d) + yb))\<rparr>"
    using assms b by (simp add: apply_boost_def)
  then show ?thesis using cb yb by blast
qed

lemma year_boost_value:
  assumes "map_of boosts ''publication_year'' = Some w"
    and "as_int (get_or (JInt 2000) (pub_year md)) = Inr y"
  shows "year_boost boosts md = Inr (w * (real_of_int (y - 2000) / 25))"
  using assms by (simp add: year_boost_def Let_def)

lemma year_boost_Inr:
  assumes "map_of boosts ''publication_year'' = Some w"
    and "year_boost boosts md = Inr yb"
  shows "\<exists>y. as_int (get_or (JInt 2000) (pub_year md)) = Inr y
      \<and> yb = w * (real_of_int (y - 2000) / 25)"
  using assms
  by (cases "as_int (get_or (JInt 2000) (pub_year md))") (simp_all add: year_boost_def Let_def)

lemma citations_boost_value:
  assumes "map_of boosts ''citations_count'' = Some w"
    and "as_int (get_or (JInt 0) (citations_count md)) = Inr c" and "0 \<le> c"
  shows "citations_boost boosts md = Inr (w * ln (1 + real_of_int c) / 10)"
  using assms by (simp add: citations_boost_def)

lemma unit_interval_scale:
  fixes w y :: real
  assumes "0 \<le> w" "0 \<le> y" "y \<le> 1"
  shows "0 \<le> w * y \<and> w * y \<le> w"
proof -
  have "0 \<le> w * y" using assms(1,2) by (rule mult_nonneg_nonneg)
  moreover have "w * y \<le> w * 1" using assms(3,1) by (rule mult_left_mono)
  ultimately show ?thesis by simp
qed

text \<open>
  C6 (as amended). With a publication-year boost of weight \<open>w\<close> among the boosts, the
  recency contribution is \<open>w * (year - 2000) / 25\<close>, where \<open>year\<close> is the integer stored
  under \<open>pub_year\<close>, or 2000 when the key is absent; it is one of the terms that
  \<open>final_score\<close> adds to the rerank score. Nothing is clamped: the contribution lies
  between 0 and \<open>w\<close> when \<open>w\<close> is not negative and the year lies in 2000..2025. A
  \<open>pub_year\<close> stored as \<open>None\<close> or as a string raises \<open>TypeError\<close>.
\<close>

theorem recency_boost_linear:
  "(map_of boosts ''publication_year'' = Some w
      \<and> as_int (get_or (JInt 2000) (pub_year (metadata d))) = Inr y \<longrightarrow>
        year_boost boosts (metadata d) = Inr (w * (real_of_int (y - 2000) / 25)))
   \<and> (map_of boosts ''publication_year'' = Some w \<and> apply_boost boosts d = Inr d' \<longrightarrow>
        (\<exists>cb y. citations_boost boosts (metadata d) = Inr cb
           \<and> as_int (get_or (JInt 2000) (pub_year (metadata d))) = Inr y
           \<and> final_score d' = Some (get_or 0 (rerank_score d)
                + (0 + cb + open_access_boost boosts (metadata d)
                   + w * (real_of_int (y - 2000) / 25)))))
   \<and> (0 \<le> w \<and> 2000 \<le> y \<and> y \<le> 2025 \<longrightarrow>
        0 \<le> w * (real_of_int (y - 2000) / 25) \<and> w * (real_of_int (y - 2000) / 25) \<le> w)
   \<and> (map_of boosts ''publication_year'' = Some w
      \<and> (pub_year (metadata d) = Some JNull \<or> (\<exists>s. pub_year (metadata d) = Some (JStr s))) \<longrightarrow>
        year_boost boosts (metadata d) = Inl TypeError)"
proof -
  have a: "year_boost boosts (metadata d) = Inr (w * (real_of_int (y - 2000) / 25))"
    if "map_of boosts ''publication_year'' = Some w"
      "as_int (get_or (JInt 2000) (pub_year (metadata d))) = Inr y"
    using that by (rule year_boost_value)
  have b: "\<exists>cb y. citations_boost boosts (metadata d) = Inr cb
           \<and> as_int (get_or (JInt 2000) (pub_year (metadata d))) = Inr y
           \<and> final_score d' = Some (get_or 0 (rerank_score d)
                + (0 + cb + open_access_boost boosts (metadata d)
                   + w * (real_of_int (y - 2000) / 25)))"
    if m: "map_of boosts ''publication_year'' = Some w" and ap: "apply_boost boosts d = Inr d'"
  proof -
    obtain cb yb where cb: "citations_boost boosts (metadata d) = Inr cb"
      and yb: "year_boost boosts (metadata d) = Inr yb"
      and d': "d' = d\<lparr>final_score := Some (get_or 0 (rerank_score d)
                 + (0 + cb + open_access_boost boosts (metadata d) + yb))\<rparr>"
      using apply_boost_final[OF ap] by (elim exE conjE)
    obtain y where y: "as_int (get_or (JInt 2000) (pub_year (metadata d))) = Inr y"
      and v: "yb = w * (real_of_int (y - 2000) / 25)"
      using year_boost_Inr[OF m yb] by (elim exE conjE)
    have "final_score d' = Some (get_or 0 (rerank_score d)
                + (0 + cb + open_access_boost boosts (metadata d)
                   + w * (real_of_int (y - 2000) / 25)))"
      by (simp add: d' v)
    then show ?thesis using cb y by blast
  qed
  have c: "0 \<le> w * (real_of_int (y - 2000) / 25) \<and> w * (real_of_int (y - 2000) / 25) \<le> w"
    if "0 \<le> w" "2000 \<le> y" "y \<le> 2025"
  proof (rule unit_interval_scale)
    show "0 \<le> w" by (rule that(1))
    show "0 \<le> real_of_int (y - 2000) / 25" using that(2) by simp
    show "real_of_int (y - 2000) / 25 \<le> 1" using that(3) by simp
  qed
  have e: "year_boost boosts (metadata d) = Inl TypeError"
    if "map_of boosts ''publication_year'' = Some w"
      "pub_year (metadata d) = Some JNull \<or> (\<exists>s. pub_year (metadata d) = Some (JStr s))"
    using that by (auto simp: year_boost_def get_or_def as_int_def)
  show ?thesis
    using a b c e by blast
qed


lemmas boost_eval =
  apply_boost_def boost_score_def citations_boost_def open_access_boost_def year_boost_def
  search_boosts_def cited_hit_def lexical_hit_def bm25_result_def no_metadata_def
  as_int_def truthy_def get_or_def

text \<open>
  The three boosts of \<open>search\<close> on a publication of 2020 with one citation and open
  access: the recency term is \<open>0.05 * 20 / 25\<close>.
\<close>

theorem recency_boost_linear_witness:
  "map_of search_boosts ''publication_year'' = Some (5 / 100)
   \<and> as_int (get_or (JInt 2000) (pub_year (metadata cited_hit))) = Inr 2020
   \<and> year_boost search_boosts (metadata cited_hit) = Inr (5 / 100 * (20 / 25))
   \<and> apply_boost search_boosts cited_hit =
       Inr (cited_hit\<lparr>final_score :=
              Some (1 + (0 + 1 / 10 * ln 2 / 10 + 5 / 100 + 5 / 100 * (20 / 25)))\<rparr>)
   \<and> (0::real) \<le> 5 / 100 * (20 / 25) \<and> (5 / 100 * (20 / 25) :: real) \<le> 5 / 100
   \<and> year_boost search_boosts (no_metadata\<lparr>pub_year := Some JNull\<rparr>) = Inl TypeError"
proof -
  let ?d' = "cited_hit\<lparr>final_score :=
              Some (1 + (0 + 1 / 10 * ln 2 / 10 + 5 / 100 + 5 / 100 * (20 / 25)))\<rparr>"
  have m: "map_of search_boosts ''publication_year'' = Some (5 / 100)"
    by (simp add: search_boosts_def)
  have y: "as_int (get_or (JInt 2000) (pub_year (metadata cited_hit))) = Inr 2020"
    by (simp add: boost_eval)
  have ap: "apply_boost search_boosts cited_hit = Inr ?d'"
    by (simp add: boost_eval)
  have t: "year_boost search_boosts (no_metadata\<lparr>pub_year := Some JNull\<rparr>) = Inl TypeError"
    by (simp add: boost_eval)
  show ?thesis
    using m y ap t recency_boost_linear[of search_boosts "5 / 100" cited_hit 2020 ?d']
    by simp
qed

text \<open>
  C6 (as stated) fails: a publication of 2050 with weight 1 contributes 2, above the
  weight, and one of 1975 contributes -1, below 0; nothing is clamped.
\<close>

theorem recency_boost_counterexample:
  "year_boost [(''publication_year'', 1)] (no_metadata\<lparr>pub_year := Some (JInt 2050)\<rparr>) = Inr 2
   \<and> \<not> (2 \<le> (1::real))
   \<and> year_boost [(''publication_year'', 1)] (no_metadata\<lparr>pub_year := Some (JInt 1975)\<rparr>)
       = Inr (- 1)
   \<and> \<not> (0 \<le> (- 1::real))"
  by (simp add: year_boost_def get_or_def as_int_def no_metadata_def)

text \<open>
  C7 (as amended). With a citation-count boost of weight \<open>w\<close> among the boosts and a
  stored citation count \<open>c \<ge> 0\<close> (0 when the key is absent), the contribution is
  \<open>w * log (1 + c) / 10\<close>, and it is one of the terms that \<open>final_score\<close> adds to the
  rerank score.
\<close>

theorem citation_boost_tenth:
  "(map_of boosts ''citations_count'' = Some w
      \<and> as_int (get_or (JInt 0) (citations_count (metadata d))) = Inr c \<and> 0 \<le> c \<longrightarrow>
        citations_boost boosts (metadata d) = Inr (w * ln (1 + real_of_int c) / 10))
   \<and> (map_of boosts ''citations_count'' = Some w
      \<and> as_int (get_or (JInt 0) (citations_count (metadata d))) = Inr c \<and> 0 \<le> c
      \<and> apply_boost boosts d = Inr d' \<longrightarrow>
        (\<exists>yb. year_boost boosts (metadata d) = Inr yb
           \<and> final_score d' = Some (get_or 0 (rerank_score d)
                + (0 + w * ln (1 + real_of_int c) / 10
                   + open_access_boost boosts (metadata d) + yb))))"
proof -
  have a: "citations_boost boosts (metadata d) = Inr (w * ln (1 + real_of_int c) / 10)"
    if "map_of boosts ''citations_count'' = Some w"
      "as_int (get_or (JInt 0) (citations_count (metadata d))) = Inr c" "0 \<le> c"
    using that by (rule citations_boost_value)
  have b: "\<exists>yb. year_boost boosts (metadata d) = Inr yb
           \<and> final_score d' = Some (get_or 0 (rerank_score d)
                + (0 + w * ln (1 + real_of_int c) / 10
                   + open_access_boost boosts (metadata d) + yb))"
    if m: "map_of boosts ''citations_count'' = Some w"
      and c: "as_int (get_or (JInt 0) (citations_count (metadata d))) = Inr c" "0 \<le> c"
      and ap: "apply_boost boosts d = Inr d'"
  proof -
    obtain cb yb where cb: "citations_boost boosts (metadata d) = Inr cb"
      and yb: "year_boost boosts (metadata d) = Inr yb"
      and d': "d' = d\<lparr>final_score := Some (get_or 0 (rerank_score d)
                 + (0 + cb + open_access_boost boosts (metadata d) + yb))\<rparr>"
      using apply_boost_final[OF ap] by (elim exE conjE)
    have "cb = w * ln (1 + real_of_int c) / 10"
      using a[OF m c] cb by simp
    then have "final_score d' = Some (get_or 0 (rerank_score d)
                + (0 + w * ln (1 + real_of_int c) / 10
                   + open_access_boost boosts (metadata d) + yb))"
      by (simp add: d')
    then show ?thesis using yb by blast
  qed
  show ?thesis
    using a b by blast
qed

text \<open>
  The three boosts of \<open>search\<close> on the same publication: the citation term is
  \<open>0.1 * log 2 / 10\<close>.
\<close>

theorem citation_boost_tenth_witness:
  "map_of search_boosts ''citations_count'' = Some (1 / 10)
   \<and> as_int (get_or (JInt 0) (citations_count (metadata cited_hit))) = Inr 1 \<and> (0::int) \<le> 1
   \<and> citations_boost search_boosts (metadata cited_hit) = Inr (1 / 10 * ln 2 / 10)
   \<and> apply_boost search_boosts cited_hit =
       Inr (cited_hit\<lparr>final_score :=
              Some (1 + (0 + 1 / 10 * ln 2 / 10 + 5 / 100 + 5 / 100 * (20 / 25)))\<rparr>)"
proof -
  let ?d' = "cited_hit\<lparr>final_score :=
              Some (1 + (0 + 1 / 10 * ln 2 / 10 + 5 / 100 + 5 / 100 * (20 / 25)))\<rparr>"
  have m: "map_of search_boosts ''citations_count'' = Some (1 / 10)"
    by (simp add: search_boosts_def)
  have c: "as_int (get_or (JInt 0) (citations_count (metadata cited_hit))) = Inr 1"
    by (simp add: boost_eval)
  have ap: "apply_boost search_boosts cited_hit = Inr ?d'"
    by (simp add: boost_eval)
  show ?thesis
    using m c ap citation_boost_tenth[of search_boosts "1 / 10" cited_hit 1 ?d']
    by simp
qed

text \<open>
  C7 (as stated) fails: with weight 1 and one citation the contribution is
  \<open>log 2 / 10\<close>, not \<open>log 2\<close>.
\<close>

theorem citation_boost_counterexample:
  "citations_boost [(''citations_count'', 1)] (no_metadata\<lparr>citations_count := Some (JInt 1)\<rparr>)
     = Inr (ln 2 / 10)
   \<and> ln 2 / 10 \<noteq> 1 * ln (1 + (1::real))"
proof -
  have "ln (2::real) > 0" by simp
  then have "ln 2 / 10 \<noteq> 1 * ln (1 + (1::real))" by simp
  then show ?thesis
    by (simp add: citations_boost_def get_or_def as_int_def no_metadata_def)
qed

section \<open>Properties of the reranker\<close>

subsection \<open>Slices and the stable sort\<close>

lemma py_take_prefix: "\<exists>m. py_take n xs = take m xs"
  by (auto simp: py_take_def)

lemma py_take_nonneg: "0 \<le> n \<Longrightarrow> py_take n xs = take (nat n) xs"
  by (simp add: py_take_def)

lemma set_py_take: "set (py_take n xs) \<subseteq> set xs"
  by (auto simp: py_take_def dest: in_set_takeD)

lemma ordered_desc_take: "ordered_desc f xs \<Longrightarrow> ordered_desc f (take m xs)"
  unfolding ordered_desc_def by (metis append_take_drop_id sorted_wrt_append)

lemma ordered_desc_py_take: "ordered_desc f xs \<Longrightarrow> ordered_desc f (py_take n xs)"
  by (metis py_take_prefix ordered_desc_take)

lemma filter_take_prefix: "\<exists>n. filter P (take m xs) = take n (filter P xs)"
proof (induction xs arbitrary: m)
  case Nil
  then show ?case by simp
next
  case (Cons x xs)
  show ?case
  proof (cases m)
    case 0
    then show ?thesis by (intro exI[of _ 0]) simp
  next
    case (Suc k)
    obtain n where n: "filter P (take k xs) = take n (filter P xs)"
      using Cons.IH by blast
    show ?thesis
    proof (cases "P x")
      case True
      then show ?thesis using Suc n by (intro exI[of _ "Suc n"]) simp
    next
      case False
      then show ?thesis using Suc n by (intro exI[of _ n]) simp
    qed
  qed
qed

lemma filter_py_take_prefix: "\<exists>n. filter P (py_take m xs) = take n (filter P xs)"
  by (metis py_take_prefix filter_take_prefix)

lemma sort_desc_stable:
  "filter (\<lambda>d. f d = s) (sort_desc f xs) = filter (\<lambda>d. f d = s) xs"
proof -
  have "filter (\<lambda>d. - f d = - s) (sort_key (\<lambda>x. - f x) xs) = filter (\<lambda>d. - f d = - s) xs"
    by (rule sort_key_stable)
  then show ?thesis by (simp add: sort_desc_def)
qed

subsection \<open>The local reranker and the boosts\<close>

lemma rerank_local_ranking:
  "rerank_local r query documents top_k = py_take top_k (rerank_ranking r query documents)"
  by (simp add: rerank_local_def rerank_ranking_def Let_def)

lemma rerank_ranking_Nil [simp]: "rerank_ranking r query [] = []"
  by (simp add: rerank_ranking_def sort_desc_def)

lemma rerank_Local:
  "model_type r = Local \<Longrightarrow>
     rerank r query documents top_k = Inr (py_take top_k (rerank_ranking r query documents))"
  by (cases "documents = []") (simp_all add: rerank_def rerank_local_ranking py_take_def)

lemma ordered_desc_rerank_ranking:
  "ordered_desc (\<lambda>d. get_or 0 (rerank_score d)) (rerank_ranking r query documents)"
  by (simp add: rerank_ranking_def ordered_desc_sort_desc)

lemma chunk_ids_rerank_ranking:
  "mset (map chunk_id (rerank_ranking r query documents)) = mset (map chunk_id documents)"
proof -
  let ?s = "map (\<lambda>d. d\<lparr>rerank_score := Some (predict r query (content d))\<rparr>) documents"
  have "map chunk_id ?s = map chunk_id documents"
    by (simp add: comp_def)
  moreover have "mset (map chunk_id (sort_desc (\<lambda>d. get_or 0 (rerank_score d)) ?s))
      = mset (map chunk_id ?s)"
    unfolding sort_desc_def by (simp only: mset_map mset_sort)
  ultimately show ?thesis
    by (simp only: rerank_ranking_def)
qed

lemma apply_boost_shape:
  "apply_boost boosts d = Inr d' \<Longrightarrow> d'\<lparr>final_score := final_score d\<rparr> = d"
  by (auto simp: apply_boost_def split: sum.splits)

lemma apply_boosts_shape:
  "apply_boosts boosts ds = Inr ds' \<Longrightarrow>
     list_all2 (\<lambda>d' d. d'\<lparr>final_score := final_score d\<rparr> = d) ds' ds"
proof (induction ds arbitrary: ds')
  case Nil
  then show ?case by simp
next
  case (Cons d ds)
  obtain d' where d': "apply_boost boosts d = Inr d'"
    using Cons.prems by (cases "apply_boost boosts d") simp_all
  obtain rest where rest: "apply_boosts boosts ds = Inr rest"
    using Cons.prems d' by (cases "apply_boosts boosts ds") simp_all
  have "ds' = d' # rest" using Cons.prems d' rest by simp
  then show ?case
    using Cons.IH[OF rest] apply_boost_shape[OF d'] by simp
qed

text \<open>What \<open>rerank_with_metadata\<close> returns with the local model.\<close>

lemma rerank_with_metadata_Local:
  assumes "model_type r = Local"
    and "rerank_with_metadata r query documents top_k boosts = Inr out"
  shows "(boosts = [] \<and> out = py_take top_k (py_take (top_k * 2) (rerank_ranking r query documents)))
     \<or> (boosts \<noteq> [] \<and> (\<exists>boosted.
           apply_boosts boosts (py_take (top_k * 2) (rerank_ranking r query documents)) = Inr boosted
           \<and> out = py_take top_k (sort_desc (\<lambda>d. get_or 0 (final_score d)) boosted)))"
proof (cases "boosts = []")
  case True
  then show ?thesis
    using assms by (simp add: rerank_with_metadata_def rerank_Local)
next
  case False
  let ?pool = "py_take (top_k * 2) (rerank_ranking r query documents)"
  obtain boosted where b: "apply_boosts boosts ?pool = Inr boosted"
    using assms False
    by (cases "apply_boosts boosts ?pool") (simp_all add: rerank_with_metadata_def rerank_Local)
  then have "out = py_take top_k (sort_desc (\<lambda>d. get_or 0 (final_score d)) boosted)"
    using assms False by (simp add: rerank_with_metadata_def rerank_Local)
  then show ?thesis using False b by simp
qed

lemmas rerank_eval =
  rerank_with_metadata_def rerank_def rerank_local_def sample_reranker_def py_take_def
  sort_desc_def get_or_def apply_boost_def boost_score_def citations_boost_def
  open_access_boost_def year_boost_def search_boosts_def lexical_hit_def bm25_result_def
  no_metadata_def as_int_def truthy_def

subsection \<open>Order of the reranked results\<close>

text \<open>What \<open>rerank_with_metadata\<close> returns with any model.\<close>

lemma rerank_with_metadata_cases:
  assumes "rerank_with_metadata r query documents top_k boosts = Inr out"
  shows "\<exists>reranked. rerank r query documents (top_k * 2) = Inr reranked
     \<and> ((boosts = [] \<and> out = py_take top_k reranked)
        \<or> (boosts \<noteq> [] \<and> (\<exists>boosted. apply_boosts boosts reranked = Inr boosted
              \<and> out = py_take top_k (sort_desc (\<lambda>d. get_or 0 (final_score d)) boosted))))"
proof -
  obtain reranked where rr: "rerank r query documents (top_k * 2) = Inr reranked"
    using assms
    by (cases "rerank r query documents (top_k * 2)") (simp_all add: rerank_with_metadata_def)
  show ?thesis
  proof (cases "boosts = []")
    case True
    then have "out = py_take top_k reranked"
      using assms rr by (simp add: rerank_with_metadata_def)
    then show ?thesis using True rr by simp
  next
    case False
    obtain boosted where b: "apply_boosts boosts reranked = Inr boosted"
      using assms False rr
      by (cases "apply_boosts boosts reranked") (simp_all add: rerank_with_metadata_def)
    then have "out = py_take top_k (sort_desc (\<lambda>d. get_or 0 (final_score d)) boosted)"
      using assms False rr by (simp add: rerank_with_metadata_def)
    then show ?thesis using False rr b by simp
  qed
qed

text \<open>
  C5 (as amended). For every result list of \<open>rerank_with_metadata\<close>, whatever the model
  type: when boosts are given the results are in descending order of \<open>final_score\<close>, and
  results with equal final score are not ordered by chunk id but keep the order in which
  the reranker returned them (the sort is stable); when no boosts are given no final
  score is computed and the results are a prefix of the reranker's output, which the
  local model puts in descending order of \<open>rerank_score\<close>.
\<close>

theorem rerank_order_stable:
  assumes "rerank_with_metadata r query documents top_k boosts = Inr out"
  shows "(boosts \<noteq> [] \<longrightarrow>
           ordered_desc (\<lambda>d. get_or 0 (final_score d)) out
           \<and> (\<exists>reranked boosted.
                 rerank r query documents (top_k * 2) = Inr reranked
                 \<and> apply_boosts boosts reranked = Inr boosted
                 \<and> list_all2 (\<lambda>d' d. d'\<lparr>final_score := final_score d\<rparr> = d) boosted reranked
                 \<and> (\<forall>s. \<exists>n. filter (\<lambda>d. get_or 0 (final_score d) = s) out
                              = take n (filter (\<lambda>d. get_or 0 (final_score d) = s) boosted))))
     \<and> (boosts = [] \<longrightarrow>
           (\<exists>reranked n. rerank r query documents (top_k * 2) = Inr reranked
              \<and> out = take n reranked))
     \<and> (boosts = [] \<and> model_type r = Local \<longrightarrow>
           ordered_desc (\<lambda>d. get_or 0 (rerank_score d)) out
           \<and> (\<exists>n. out = take n (rerank_ranking r query documents)))"
proof -
  let ?f = "\<lambda>d. get_or 0 (final_score d)"
  obtain reranked where rr: "rerank r query documents (top_k * 2) = Inr reranked"
    and cs: "(boosts = [] \<and> out = py_take top_k reranked)
        \<or> (boosts \<noteq> [] \<and> (\<exists>boosted. apply_boosts boosts reranked = Inr boosted
              \<and> out = py_take top_k (sort_desc ?f boosted)))"
    using rerank_with_metadata_cases[OF assms] by (elim exE conjE)
  have a: "ordered_desc ?f out
           \<and> (\<exists>reranked boosted.
                 rerank r query documents (top_k * 2) = Inr reranked
                 \<and> apply_boosts boosts reranked = Inr boosted
                 \<and> list_all2 (\<lambda>d' d. d'\<lparr>final_score := final_score d\<rparr> = d) boosted reranked
                 \<and> (\<forall>s. \<exists>n. filter (\<lambda>d. ?f d = s) out = take n (filter (\<lambda>d. ?f d = s) boosted)))"
    if nb: "boosts \<noteq> []"
  proof -
    obtain boosted where b: "apply_boosts boosts reranked = Inr boosted"
      and out: "out = py_take top_k (sort_desc ?f boosted)"
      using cs nb by auto
    have ord: "ordered_desc ?f out"
      unfolding out by (rule ordered_desc_py_take) (rule ordered_desc_sort_desc)
    have tie: "\<exists>n. filter (\<lambda>d. ?f d = s) out = take n (filter (\<lambda>d. ?f d = s) boosted)" for s
    proof -
      obtain n where "filter (\<lambda>d. ?f d = s) (py_take top_k (sort_desc ?f boosted))
          = take n (filter (\<lambda>d. ?f d = s) (sort_desc ?f boosted))"
        using filter_py_take_prefix by blast
      then show ?thesis
        unfolding out by (simp only: sort_desc_stable) blast
    qed
    have sh: "list_all2 (\<lambda>d' d. d'\<lparr>final_score := final_score d\<rparr> = d) boosted reranked"
      by (rule apply_boosts_shape[OF b])
    show ?thesis using ord rr b sh tie by blast
  qed
  have b: "\<exists>reranked n. rerank r query documents (top_k * 2) = Inr reranked \<and> out = take n reranked"
    if eb: "boosts = []"
  proof -
    have "out = py_take top_k reranked" using cs eb by simp
    then obtain n where "out = take n reranked" using py_take_prefix by metis
    then show ?thesis using rr by blast
  qed
  have c: "ordered_desc (\<lambda>d. get_or 0 (rerank_score d)) out
           \<and> (\<exists>n. out = take n (rerank_ranking r query documents))"
    if eb: "boosts = []" and l: "model_type r = Local"
  proof -
    let ?rk = "rerank_ranking r query documents"
    have "reranked = py_take (top_k * 2) ?rk"
      using rr rerank_Local[OF l, of query documents "top_k * 2"] by simp
    moreover have "out = py_take top_k reranked" using cs eb by simp
    ultimately have out: "out = py_take top_k (py_take (top_k * 2) ?rk)" by simp
    obtain m where m: "py_take (top_k * 2) ?rk = take m ?rk"
      using py_take_prefix by blast
    obtain m' where m': "py_take top_k (take m ?rk) = take m' (take m ?rk)"
      using py_take_prefix by blast
    have pre: "out = take (min m' m) ?rk"
      using out m m' by simp
    have "ordered_desc (\<lambda>d. get_or 0 (rerank_score d)) out"
      unfolding pre by (rule ordered_desc_take) (rule ordered_desc_rerank_ranking)
    then show ?thesis using pre by blast
  qed
  show ?thesis
  proof (intro conjI impI)
    show "ordered_desc ?f out" if "boosts \<noteq> []" using a[OF that] by (rule conjunct1)
    show "\<exists>reranked boosted.
                 rerank r query documents (top_k * 2) = Inr reranked
                 \<and> apply_boosts boosts reranked = Inr boosted
                 \<and> list_all2 (\<lambda>d' d. d'\<lparr>final_score := final_score d\<rparr> = d) boosted reranked
                 \<and> (\<forall>s. \<exists>n. filter (\<lambda>d. ?f d = s) out = take n (filter (\<lambda>d. ?f d = s) boosted))"
      if "boosts \<noteq> []" using a[OF that] by (rule conjunct2)
    show "\<exists>reranked n. rerank r query documents (top_k * 2) = Inr reranked \<and> out = take n reranked"
      if "boosts = []" using b[OF that] .
    show "ordered_desc (\<lambda>d. get_or 0 (rerank_score d)) out"
      if "boosts = [] \<and> model_type r = Local" using c that by blast
    show "\<exists>n. out = take n (rerank_ranking r query documents)"
      if "boosts = [] \<and> model_type r = Local" using c that by blast
  qed
qed

theorem rerank_order_stable_witness:
  "model_type sample_reranker = Local
   \<and> rerank_with_metadata sample_reranker ''q''
        [lexical_hit ''b'' 2, (lexical_hit ''c'' 1)\<lparr>content := ''xx''\<rparr>, lexical_hit ''a'' 3]
        10 search_boosts =
       Inr [(lexical_hit ''c'' 1)\<lparr>content := ''xx'', rerank_score := Some 2, final_score := Some 2\<rparr>,
            (lexical_hit ''b'' 2)\<lparr>rerank_score := Some 0, final_score := Some 0\<rparr>,
            (lexical_hit ''a'' 3)\<lparr>rerank_score := Some 0, final_score := Some 0\<rparr>]
   \<and> ordered_desc (\<lambda>d. get_or 0 (final_score d))
        [(lexical_hit ''c'' 1)\<lparr>content := ''xx'', rerank_score := Some 2, final_score := Some 2\<rparr>,
         (lexical_hit ''b'' 2)\<lparr>rerank_score := Some 0, final_score := Some 0\<rparr>,
         (lexical_hit ''a'' 3)\<lparr>rerank_score := Some 0, final_score := Some 0\<rparr>]"
proof -
  have l: "model_type sample_reranker = Local"
    by (simp add: sample_reranker_def)
  have e: "rerank_with_metadata sample_reranker ''q''
        [lexical_hit ''b'' 2, (lexical_hit ''c'' 1)\<lparr>content := ''xx''\<rparr>, lexical_hit ''a'' 3]
        10 search_boosts =
       Inr [(lexical_hit ''c'' 1)\<lparr>content := ''xx'', rerank_score := Some 2, final_score := Some 2\<rparr>,
            (lexical_hit ''b'' 2)\<lparr>rerank_score := Some 0, final_score := Some 0\<rparr>,
            (lexical_hit ''a'' 3)\<lparr>rerank_score := Some 0, final_score := Some 0\<rparr>]"
    by (simp add: rerank_eval)
  have n: "search_boosts \<noteq> []"
    by (simp add: search_boosts_def)
  show ?thesis
    using l e n rerank_order_stable[OF e] by simp
qed

text \<open>
  C5 (as stated) fails: two candidates with the same final score come out in the order
  of the input, \<open>b\<close> before \<open>a\<close>, not in ascending order of chunk id. And without boosts
  no final score is computed: the candidates come out in the order of the reranker, and
  a final score that they carry already is left as it is, in any order.
\<close>

theorem rerank_tie_counterexample:
  "rerank_with_metadata sample_reranker ''q'' [lexical_hit ''b'' 2, lexical_hit ''a'' 3]
        10 search_boosts =
     Inr [(lexical_hit ''b'' 2)\<lparr>rerank_score := Some 0, final_score := Some 0\<rparr>,
          (lexical_hit ''a'' 3)\<lparr>rerank_score := Some 0, final_score := Some 0\<rparr>]
   \<and> chunk_id ((lexical_hit ''b'' 2)\<lparr>rerank_score := Some 0, final_score := Some 0\<rparr>) = ''b''
   \<and> chunk_id ((lexical_hit ''a'' 3)\<lparr>rerank_score := Some 0, final_score := Some 0\<rparr>) = ''a''
   \<and> ''a'' < ''b''
   \<and> rerank_with_metadata sample_reranker ''q''
        [(lexical_hit ''a'' 1)\<lparr>content := ''xx'', final_score := Some 1\<rparr>,
         (lexical_hit ''b'' 1)\<lparr>content := ''x'', final_score := Some 5\<rparr>]
        10 [] =
     Inr [(lexical_hit ''a'' 1)\<lparr>content := ''xx'', rerank_score := Some 2, final_score := Some 1\<rparr>,
          (lexical_hit ''b'' 1)\<lparr>content := ''x'', rerank_score := Some 1, final_score := Some 5\<rparr>]
   \<and> \<not> ordered_desc (\<lambda>d. get_or 0 (final_score d))
        [(lexical_hit ''a'' 1)\<lparr>content := ''xx'', rerank_score := Some 2, final_score := Some 1\<rparr>,
         (lexical_hit ''b'' 1)\<lparr>content := ''x'', rerank_score := Some 1, final_score := Some 5\<rparr>]"
  by (simp add: rerank_eval ordered_desc_def)

subsection \<open>The pool of the metadata boosts\<close>

lemma list_all2_set_left:
  "list_all2 P xs ys \<Longrightarrow> x \<in> set xs \<Longrightarrow> \<exists>y\<in>set ys. P x y"
  by (induction rule: list_all2_induct) auto

lemma same_candidate_chunk_id:
  "d\<lparr>final_score := v\<rparr> = c \<Longrightarrow> chunk_id d = chunk_id c"
  by (cases d) auto

lemma distinct_nth_not_in_take:
  assumes "distinct xs" and "m \<le> i" and "i < length xs"
  shows "xs ! i \<notin> set (take m xs)"
proof
  assume "xs ! i \<in> set (take m xs)"
  then obtain j where j: "j < length (take m xs)" "take m xs ! j = xs ! i"
    by (auto simp: in_set_conv_nth)
  then have "j < m" "j < length xs" "xs ! j = xs ! i" by simp_all
  then have "j = i" using assms(1,3) by (simp add: nth_eq_iff_index_eq)
  then show False using \<open>j < m\<close> assms(2) by simp
qed

text \<open>The results come from the output of the reranker, whatever the model is.\<close>

lemma rerank_pool_any:
  assumes "rerank_with_metadata r query documents top_k boosts = Inr out"
  shows "\<exists>reranked. rerank r query documents (top_k * 2) = Inr reranked
     \<and> (\<forall>d\<in>set out. \<exists>c\<in>set reranked. d\<lparr>final_score := final_score c\<rparr> = c)"
proof -
  obtain reranked where rr: "rerank r query documents (top_k * 2) = Inr reranked"
    and cs: "(boosts = [] \<and> out = py_take top_k reranked)
        \<or> (boosts \<noteq> [] \<and> (\<exists>boosted. apply_boosts boosts reranked = Inr boosted
              \<and> out = py_take top_k (sort_desc (\<lambda>d. get_or 0 (final_score d)) boosted)))"
    using rerank_with_metadata_cases[OF assms] by (elim exE conjE)
  have "\<exists>c\<in>set reranked. d\<lparr>final_score := final_score c\<rparr> = c" if d: "d \<in> set out" for d
  proof (cases "boosts = []")
    case True
    then have "out = py_take top_k reranked" using cs by simp
    then have "d \<in> set reranked" using d set_py_take by fastforce
    then show ?thesis by (intro bexI[of _ d]) simp_all
  next
    case False
    then obtain boosted where b: "apply_boosts boosts reranked = Inr boosted"
      and out: "out = py_take top_k (sort_desc (\<lambda>d. get_or 0 (final_score d)) boosted)"
      using cs by auto
    have "d \<in> set (sort_desc (\<lambda>d. get_or 0 (final_score d)) boosted)"
      using d out set_py_take by fastforce
    then have "d \<in> set boosted" by simp
    then show ?thesis
      using list_all2_set_left[OF apply_boosts_shape[OF b]] by blast
  qed
  then show ?thesis using rr by blast
qed

lemma rerank_OpenAI:
  "model_type r = OpenAI \<Longrightarrow>
     rerank r query documents top_k = Inr (py_take top_k documents)"
  by (cases "documents = []") (simp_all add: rerank_def rerank_openai_def py_take_def)

lemma rerank_pool_local:
  assumes "model_type r = Local" and "0 \<le> top_k"
    and "rerank_with_metadata r query documents top_k boosts = Inr out"
  shows "(\<forall>d\<in>set out. \<exists>c\<in>set (take (nat (2 * top_k)) (rerank_ranking r query documents)).
            d\<lparr>final_score := final_score c\<rparr> = c)
     \<and> (distinct (map chunk_id documents) \<longrightarrow>
          (\<forall>i. nat (2 * top_k) \<le> i \<and> i < length documents \<longrightarrow>
             chunk_id (rerank_ranking r query documents ! i) \<notin> set (map chunk_id out)))"
proof -
  let ?rk = "rerank_ranking r query documents"
  let ?pool = "take (nat (2 * top_k)) ?rk"
  have pool: "py_take (top_k * 2) ?rk = ?pool"
    using assms(2) by (simp add: py_take_def mult.commute)
  have a: "\<exists>c\<in>set ?pool. d\<lparr>final_score := final_score c\<rparr> = c" if d: "d \<in> set out" for d
  proof (cases "boosts = []")
    case True
    then have "out = py_take top_k ?pool"
      using rerank_with_metadata_Local[OF assms(1,3)] pool by simp
    then have "d \<in> set ?pool" using d set_py_take by fastforce
    then show ?thesis by (intro bexI[of _ d]) simp_all
  next
    case False
    then obtain boosted where b: "apply_boosts boosts ?pool = Inr boosted"
      and out: "out = py_take top_k (sort_desc (\<lambda>d. get_or 0 (final_score d)) boosted)"
      using rerank_with_metadata_Local[OF assms(1,3)] pool by auto
    have "d \<in> set (sort_desc (\<lambda>d. get_or 0 (final_score d)) boosted)"
      using d out set_py_take by fastforce
    then have "d \<in> set boosted" by simp
    then show ?thesis
      using list_all2_set_left[OF apply_boosts_shape[OF b]] by blast
  qed
  have b: "chunk_id (?rk ! i) \<notin> set (map chunk_id out)"
    if dist: "distinct (map chunk_id documents)" and i: "nat (2 * top_k) \<le> i" "i < length documents"
    for i
  proof
    assume "chunk_id (?rk ! i) \<in> set (map chunk_id out)"
    then obtain d where d: "d \<in> set out" "chunk_id d = chunk_id (?rk ! i)" by auto
    obtain c where c: "c \<in> set ?pool" "d\<lparr>final_score := final_score c\<rparr> = c"
      using a[OF d(1)] by blast
    have ids: "mset (map chunk_id ?rk) = mset (map chunk_id documents)"
      by (rule chunk_ids_rerank_ranking)
    have dk: "distinct (map chunk_id ?rk)"
      using dist ids by (metis mset_eq_imp_distinct_iff)
    have len: "length ?rk = length documents"
      using ids by (metis length_map size_mset)
    have "map chunk_id ?rk ! i \<notin> set (take (nat (2 * top_k)) (map chunk_id ?rk))"
      using distinct_nth_not_in_take[OF dk i(1)] i(2) len by simp
    moreover have "map chunk_id ?rk ! i = chunk_id (?rk ! i)"
      using i(2) len by simp
    moreover have "chunk_id c \<in> set (take (nat (2 * top_k)) (map chunk_id ?rk))"
      using c(1) by (simp add: take_map)
    moreover have "chunk_id d = chunk_id c"
      using same_candidate_chunk_id[OF c(2)] .
    ultimately show False using d(2) by simp
  qed
  show ?thesis using a b by blast
qed

text \<open>
  C10 (as amended). Every result of \<open>rerank_with_metadata\<close> is one of the documents that
  the reranker returned for \<open>2 * top_k\<close> (up to the \<open>final_score\<close> that the boosts attach).
  With the local model and a top-k that is not negative these are the first \<open>2 * top_k\<close>
  candidates of the ranking by raw rerank score, so that, the chunk ids of the candidates
  being distinct, a candidate ranked below position \<open>2 * top_k\<close> does not appear in the
  output, whatever the boosts are. With the \<open>openai\<close> model type they are the first
  \<open>2 * top_k\<close> candidates in input order.
\<close>

theorem rerank_with_metadata_pool:
  assumes "rerank_with_metadata r query documents top_k boosts = Inr out"
  shows "(\<exists>reranked. rerank r query documents (top_k * 2) = Inr reranked
            \<and> (\<forall>d\<in>set out. \<exists>c\<in>set reranked. d\<lparr>final_score := final_score c\<rparr> = c))
     \<and> (model_type r = Local \<and> 0 \<le> top_k \<longrightarrow>
          (\<forall>d\<in>set out. \<exists>c\<in>set (take (nat (2 * top_k)) (rerank_ranking r query documents)).
              d\<lparr>final_score := final_score c\<rparr> = c))
     \<and> (model_type r = Local \<and> 0 \<le> top_k \<and> distinct (map chunk_id documents) \<longrightarrow>
          (\<forall>i. nat (2 * top_k) \<le> i \<and> i < length documents \<longrightarrow>
             chunk_id (rerank_ranking r query documents ! i) \<notin> set (map chunk_id out)))
     \<and> (model_type r = OpenAI \<and> 0 \<le> top_k \<longrightarrow>
          (\<forall>d\<in>set out. \<exists>c\<in>set (take (nat (2 * top_k)) documents).
              d\<lparr>final_score := final_score c\<rparr> = c))"
proof (intro conjI impI)
  show "\<exists>reranked. rerank r query documents (top_k * 2) = Inr reranked
            \<and> (\<forall>d\<in>set out. \<exists>c\<in>set reranked. d\<lparr>final_score := final_score c\<rparr> = c)"
    by (rule rerank_pool_any[OF assms])
next
  assume h: "model_type r = Local \<and> 0 \<le> top_k"
  then have l: "model_type r = Local" and k: "0 \<le> top_k" by simp_all
  show "\<forall>d\<in>set out. \<exists>c\<in>set (take (nat (2 * top_k)) (rerank_ranking r query documents)).
              d\<lparr>final_score := final_score c\<rparr> = c"
    using rerank_pool_local[OF l k assms] by (rule conjunct1)
next
  assume h: "model_type r = Local \<and> 0 \<le> top_k \<and> distinct (map chunk_id documents)"
  then have l: "model_type r = Local" and k: "0 \<le> top_k"
    and d: "distinct (map chunk_id documents)" by simp_all
  have "distinct (map chunk_id documents) \<longrightarrow>
          (\<forall>i. nat (2 * top_k) \<le> i \<and> i < length documents \<longrightarrow>
             chunk_id (rerank_ranking r query documents ! i) \<notin> set (map chunk_id out))"
    using rerank_pool_local[OF l k assms] by (rule conjunct2)
  then show "\<forall>i. nat (2 * top_k) \<le> i \<and> i < length documents \<longrightarrow>
             chunk_id (rerank_ranking r query documents ! i) \<notin> set (map chunk_id out)"
    using d by (rule mp)
next
  assume h: "model_type r = OpenAI \<and> 0 \<le> top_k"
  then have o: "model_type r = OpenAI" and k: "0 \<le> top_k" by simp_all
  obtain reranked where rr: "rerank r query documents (top_k * 2) = Inr reranked"
    and sub: "\<forall>d\<in>set out. \<exists>c\<in>set reranked. d\<lparr>final_score := final_score c\<rparr> = c"
    using rerank_pool_any[OF assms] by (elim exE conjE)
  have "reranked = py_take (top_k * 2) documents"
    using rr rerank_OpenAI[OF o, of query documents "top_k * 2"] by simp
  then have "reranked = take (nat (2 * top_k)) documents"
    using k by (simp add: py_take_def mult.commute)
  then show "\<forall>d\<in>set out. \<exists>c\<in>set (take (nat (2 * top_k)) documents).
              d\<lparr>final_score := final_score c\<rparr> = c"
    using sub by simp
qed

text \<open>
  Three candidates and \<open>top_k = 1\<close>: the candidate \<open>low\<close> is third by rerank score and is
  open access; a weight of 100 on open access would put it first, but it is outside the
  pool of two and does not appear.
\<close>

theorem rerank_with_metadata_pool_witness:
  "model_type sample_reranker = Local \<and> (0::int) \<le> 1
   \<and> rerank_with_metadata sample_reranker ''q''
        [(lexical_hit ''low'' 9)\<lparr>metadata := no_metadata\<lparr>is_open_access := Some (JBool True)\<rparr>\<rparr>,
         (lexical_hit ''p'' 5)\<lparr>content := ''xxx''\<rparr>,
         (lexical_hit ''q'' 4)\<lparr>content := ''xx''\<rparr>]
        1 [(''is_open_access'', 100)] =
       Inr [(lexical_hit ''p'' 5)\<lparr>content := ''xxx'', rerank_score := Some 3, final_score := Some 3\<rparr>]
   \<and> distinct (map chunk_id
        [(lexical_hit ''low'' 9)\<lparr>metadata := no_metadata\<lparr>is_open_access := Some (JBool True)\<rparr>\<rparr>,
         (lexical_hit ''p'' 5)\<lparr>content := ''xxx''\<rparr>,
         (lexical_hit ''q'' 4)\<lparr>content := ''xx''\<rparr>])
   \<and> chunk_id (rerank_ranking sample_reranker ''q''
        [(lexical_hit ''low'' 9)\<lparr>metadata := no_metadata\<lparr>is_open_access := Some (JBool True)\<rparr>\<rparr>,
         (lexical_hit ''p'' 5)\<lparr>content := ''xxx''\<rparr>,
         (lexical_hit ''q'' 4)\<lparr>content := ''xx''\<rparr>] ! 2) = ''low''
   \<and> ''low'' \<notin> set (map chunk_id
        [(lexical_hit ''p'' 5)\<lparr>content := ''xxx'', rerank_score := Some 3, final_score := Some 3\<rparr>])"
proof -
  let ?docs = "[(lexical_hit ''low'' 9)\<lparr>metadata := no_metadata\<lparr>is_open_access := Some (JBool True)\<rparr>\<rparr>,
         (lexical_hit ''p'' 5)\<lparr>content := ''xxx''\<rparr>,
         (lexical_hit ''q'' 4)\<lparr>content := ''xx''\<rparr>]"
  have l: "model_type sample_reranker = Local"
    by (simp add: sample_reranker_def)
  have k: "(0::int) \<le> 1" by simp
  have e: "rerank_with_metadata sample_reranker ''q'' ?docs 1 [(''is_open_access'', 100)] =
       Inr [(lexical_hit ''p'' 5)\<lparr>content := ''xxx'', rerank_score := Some 3, final_score := Some 3\<rparr>]"
    by (simp add: rerank_eval)
  have d: "distinct (map chunk_id ?docs)"
    by (simp add: lexical_hit_def bm25_result_def)
  have r: "chunk_id (rerank_ranking sample_reranker ''q'' ?docs ! 2) = ''low''"
    by (simp add: rerank_ranking_def rerank_eval)
  have n: "''low'' \<notin> set (map chunk_id
        [(lexical_hit ''p'' 5)\<lparr>content := ''xxx'', rerank_score := Some 3, final_score := Some 3\<rparr>])"
    by (simp add: lexical_hit_def bm25_result_def)
  have "model_type sample_reranker = Local \<and> (0::int) \<le> 1 \<and> distinct (map chunk_id ?docs) \<longrightarrow>
      (\<forall>i. nat (2 * 1) \<le> i \<and> i < length ?docs \<longrightarrow>
         chunk_id (rerank_ranking sample_reranker ''q'' ?docs ! i) \<notin> set (map chunk_id
        [(lexical_hit ''p'' 5)\<lparr>content := ''xxx'', rerank_score := Some 3, final_score := Some 3\<rparr>]))"
    using rerank_with_metadata_pool[OF e] by (elim conjE)
  then have "\<forall>i. nat (2 * 1) \<le> i \<and> i < length ?docs \<longrightarrow>
         chunk_id (rerank_ranking sample_reranker ''q'' ?docs ! i) \<notin> set (map chunk_id
        [(lexical_hit ''p'' 5)\<lparr>content := ''xxx'', rerank_score := Some 3, final_score := Some 3\<rparr>])"
    using l k d by blast
  then have "nat (2 * 1) \<le> 2 \<and> 2 < length ?docs \<longrightarrow>
         chunk_id (rerank_ranking sample_reranker ''q'' ?docs ! 2) \<notin> set (map chunk_id
        [(lexical_hit ''p'' 5)\<lparr>content := ''xxx'', rerank_score := Some 3, final_score := Some 3\<rparr>])"
    by (rule spec)
  moreover have "nat (2 * 1) \<le> 2 \<and> 2 < length ?docs" by simp
  ultimately have "chunk_id (rerank_ranking sample_reranker ''q'' ?docs ! 2) \<notin> set (map chunk_id
        [(lexical_hit ''p'' 5)\<lparr>content := ''xxx'', rerank_score := Some 3, final_score := Some 3\<rparr>])"
    by (rule mp)
  then have n': "''low'' \<notin> set (map chunk_id
        [(lexical_hit ''p'' 5)\<lparr>content := ''xxx'', rerank_score := Some 3, final_score := Some 3\<rparr>])"
    unfolding r .
  show ?thesis
    by (intro conjI) (rule l k e d r n')+
qed

text \<open>
  C10 (as stated) fails in two ways. With \<open>top_k = -1\<close> the slices count from the end of
  the list: of four candidates one is returned, although no candidate ranks within the
  top \<open>2 * top_k\<close>. With the \<open>openai\<close> model type nothing is scored and the pool is the
  first \<open>2 * top_k\<close> candidates in input order: the candidate \<open>low\<close>, last by the
  relevance of its text, is returned without a rerank score.
\<close>

theorem rerank_with_metadata_pool_counterexample:
  "rerank_with_metadata sample_reranker ''q''
      [(lexical_hit ''a'' 1)\<lparr>content := ''xxxx''\<rparr>, (lexical_hit ''b'' 1)\<lparr>content := ''xxx''\<rparr>,
       (lexical_hit ''c'' 1)\<lparr>content := ''xx''\<rparr>, (lexical_hit ''d'' 1)\<lparr>content := ''x''\<rparr>]
      (- 1) search_boosts =
     Inr [(lexical_hit ''a'' 1)\<lparr>content := ''xxxx'', rerank_score := Some 4, final_score := Some 4\<rparr>]
   \<and> take (nat (2 * (- 1))) (rerank_ranking sample_reranker ''q''
      [(lexical_hit ''a'' 1)\<lparr>content := ''xxxx''\<rparr>, (lexical_hit ''b'' 1)\<lparr>content := ''xxx''\<rparr>,
       (lexical_hit ''c'' 1)\<lparr>content := ''xx''\<rparr>, (lexical_hit ''d'' 1)\<lparr>content := ''x''\<rparr>]) = []
   \<and> rerank_with_metadata openai_reranker ''q''
        [(lexical_hit ''low'' 9)\<lparr>metadata := no_metadata\<lparr>is_open_access := Some (JBool True)\<rparr>\<rparr>,
         (lexical_hit ''p'' 5)\<lparr>content := ''xxx''\<rparr>,
         (lexical_hit ''q'' 4)\<lparr>content := ''xx''\<rparr>]
        1 [(''is_open_access'', 100)] =
       Inr [(lexical_hit ''low'' 9)\<lparr>metadata := no_metadata\<lparr>is_open_access := Some (JBool True)\<rparr>,
              final_score := Some 100\<rparr>]
   \<and> rerank_score ((lexical_hit ''low'' 9)
          \<lparr>metadata := no_metadata\<lparr>is_open_access := Some (JBool True)\<rparr>,
           final_score := Some 100\<rparr>) = None
   \<and> map chunk_id (rerank_ranking openai_reranker ''q''
        [(lexical_hit ''low'' 9)\<lparr>metadata := no_metadata\<lparr>is_open_access := Some (JBool True)\<rparr>\<rparr>,
         (lexical_hit ''p'' 5)\<lparr>content := ''xxx''\<rparr>,
         (lexical_hit ''q'' 4)\<lparr>content := ''xx''\<rparr>]) = [''p'', ''q'', ''low'']"
  by (simp add: rerank_eval rerank_ranking_def rerank_openai_def openai_reranker_def)

section \<open>Properties of the orchestrator\<close>

lemma no_zero_rank_60: "no_zero_rank 60 ls"
  by (simp add: no_zero_rank_def list_all_iff)

lemma find_Some_set: "find P xs = Some x \<Longrightarrow> x \<in> set xs"
  by (auto simp: find_Some_iff)

lemma rerank_score_fused_doc [simp]: "rerank_score (fused_doc d s) = rerank_score d"
  by (simp add: fused_doc_def)

text \<open>The fusion with \<open>k = 60\<close> always returns; its records keep the rerank score of a source.\<close>

lemma rrf_60:
  "\<exists>fused. reciprocal_rank_fusion ls 60 = Inr fused
     \<and> ordered_desc (\<lambda>d. get_or 0 (rrf_score d)) fused
     \<and> (\<forall>d\<in>set fused. \<exists>d0\<in>set (concat ls). rerank_score d = rerank_score d0)"
proof -
  from rrf_facts[OF no_zero_rank_60, of ls]
  obtain fused where all: "reciprocal_rank_fusion ls 60 = Inr fused
     \<and> (\<forall>d\<in>set fused. rrf_score d = Some (spec_fusion_score 60 (chunk_id d) ls))
     \<and> (\<forall>d\<in>set fused. \<exists>d0. find (\<lambda>x. chunk_id x = chunk_id d) (concat ls) = Some d0
            \<and> d = fused_doc d0 (spec_fusion_score 60 (chunk_id d) ls))
     \<and> distinct (map chunk_id fused)
     \<and> set (map chunk_id fused) = set (map chunk_id (concat ls))
     \<and> ordered_desc (\<lambda>d. get_or 0 (rrf_score d)) fused" ..
  have f: "reciprocal_rank_fusion ls 60 = Inr fused"
    using all by (rule conjunct1)
  have src: "\<forall>d\<in>set fused. \<exists>d0. find (\<lambda>x. chunk_id x = chunk_id d) (concat ls) = Some d0
            \<and> d = fused_doc d0 (spec_fusion_score 60 (chunk_id d) ls)"
    using all by (elim conjE)
  have ord: "ordered_desc (\<lambda>d. get_or 0 (rrf_score d)) fused"
    using all by (elim conjE)
  have keep: "\<forall>d\<in>set fused. \<exists>d0\<in>set (concat ls). rerank_score d = rerank_score d0"
  proof
    fix d assume "d \<in> set fused"
    then have "\<exists>d0. find (\<lambda>x. chunk_id x = chunk_id d) (concat ls) = Some d0
            \<and> d = fused_doc d0 (spec_fusion_score 60 (chunk_id d) ls)"
      using src by (rule bspec[rotated])
    then obtain d0 where d0: "find (\<lambda>x. chunk_id x = chunk_id d) (concat ls) = Some d0"
      and d: "d = fused_doc d0 (spec_fusion_score 60 (chunk_id d) ls)"
      by (elim exE conjE)
    have "rerank_score d = rerank_score d0"
      using d by (metis rerank_score_fused_doc)
    moreover have "d0 \<in> set (concat ls)" using d0 by (rule find_Some_set)
    ultimately show "\<exists>d0\<in>set (concat ls). rerank_score d = rerank_score d0"
      by blast
  qed
  show ?thesis
    by (intro exI[of _ fused] conjI f ord keep)
qed

lemma map_snd_enumerate_fun: "map (\<lambda>x. g (snd x)) (enumerate n ds) = map g ds"
  by (induction ds arbitrary: n) simp_all

lemma format_results_map:
  "map result_chunk_id (format_results ds) = map chunk_id ds
   \<and> map (\<lambda>c. rrf (relevance c)) (format_results ds) = map (\<lambda>d. get_or 0 (rrf_score d)) ds
   \<and> map (\<lambda>c. rerank_value (relevance c)) (format_results ds)
        = map (\<lambda>d. get_or 0 (rerank_score d)) ds
   \<and> length (format_results ds) = length ds"
  by (simp add: format_results_def format_single_result_def comp_def case_prod_unfold
      map_snd_enumerate_fun[of chunk_id]
      map_snd_enumerate_fun[of "\<lambda>d. get_or 0 (rrf_score d)"]
      map_snd_enumerate_fun[of "\<lambda>d. get_or 0 (rerank_score d)"])

lemma ordered_desc_map:
  "ordered_desc f (map g xs) = ordered_desc (\<lambda>x. f (g x)) xs"
  by (simp add: ordered_desc_def sorted_wrt_map)

text \<open>
  C4 (as amended). When the construction of the reranker fails, \<open>__init__\<close> switches the
  reranker off and \<open>search\<close> still returns citations: those of the first \<open>top_k\<close> of the
  (at most 80) fused candidates, in fusion order, that is by descending RRF score, each
  with a rerank score of 0. The searchers' results carry no rerank score of their own.
\<close>

theorem search_without_reranker:
  assumes "0 \<le> top_k"
    and "\<forall>d\<in>set (bm25s @ vectors). rerank_score d = None"
  shows "\<exists>resp fused.
       reciprocal_rank_fusion [bm25s, vectors] 60 = Inr fused
     \<and> hybrid_search (engine_init True (Inl e)) (Inr bm25s) (Inr vectors) query top_k = Inr resp
     \<and> map result_chunk_id (citations resp) = map chunk_id (take (nat top_k) (take 80 fused))
     \<and> length (citations resp) = min (nat top_k) (min 80 (length fused))
     \<and> length (citations resp) \<le> nat top_k
     \<and> ordered_desc (\<lambda>c. rrf (relevance c)) (citations resp)
     \<and> (\<forall>c\<in>set (citations resp). rerank_value (relevance c) = 0)
     \<and> \<not> reranked_flag resp"
proof -
  let ?key = "\<lambda>d. get_or 0 (rrf_score d)"
  from rrf_60[of "[bm25s, vectors]"]
  obtain fused where all: "reciprocal_rank_fusion [bm25s, vectors] 60 = Inr fused
     \<and> ordered_desc ?key fused
     \<and> (\<forall>d\<in>set fused. \<exists>d0\<in>set (concat [bm25s, vectors]). rerank_score d = rerank_score d0)" ..
  have f: "reciprocal_rank_fusion [bm25s, vectors] 60 = Inr fused"
    using all by (rule conjunct1)
  have ord: "ordered_desc ?key fused"
    using all by (elim conjE)
  have keep: "\<forall>d\<in>set fused. \<exists>d0\<in>set (concat [bm25s, vectors]). rerank_score d = rerank_score d0"
    using all by (elim conjE)
  let ?final = "take (nat top_k) (take 80 fused)"
  have nor: "rerank_score d = None" if "d \<in> set fused" for d
  proof -
    have "\<exists>d0\<in>set (concat [bm25s, vectors]). rerank_score d = rerank_score d0"
      using keep that by (rule bspec)
    then obtain d0 where m: "d0 \<in> set (concat [bm25s, vectors])"
      and e: "rerank_score d = rerank_score d0"
      by (elim bexE)
    have "d0 \<in> set (bm25s @ vectors)" using m by simp
    then have "rerank_score d0 = None" using assms(2) by (rule bspec[rotated])
    then show ?thesis by (simp only: e)
  qed
  let ?resp = "\<lparr>total_results = length fused, returned_results = length ?final,
      citations = format_results ?final, reranked_flag = False\<rparr>"
  have run: "hybrid_search (engine_init True (Inl e)) (Inr bm25s) (Inr vectors) query top_k
      = Inr ?resp"
    using f assms(1)
    by (simp add: hybrid_search_def engine_init_def create_answer_with_citations_def
        py_take_def Let_def)
  have ids: "map result_chunk_id (format_results ?final) = map chunk_id ?final"
    using format_results_map[of ?final] by (elim conjE)
  have rr: "map (\<lambda>c. rrf (relevance c)) (format_results ?final) = map ?key ?final"
    using format_results_map[of ?final] by (elim conjE)
  have rk: "map (\<lambda>c. rerank_value (relevance c)) (format_results ?final)
        = map (\<lambda>d. get_or 0 (rerank_score d)) ?final"
    using format_results_map[of ?final] by (elim conjE)
  have len: "length (format_results ?final) = length ?final"
    using format_results_map[of ?final] by (elim conjE)
  have o1: "ordered_desc ?key ?final"
    by (intro ordered_desc_take ord)
  have "ordered_desc (\<lambda>x. x) (map ?key ?final)"
    using o1 by (simp add: ordered_desc_map)
  then have "ordered_desc (\<lambda>x. x) (map (\<lambda>c. rrf (relevance c)) (format_results ?final))"
    by (simp only: rr)
  then have o2: "ordered_desc (\<lambda>c. rrf (relevance c)) (format_results ?final)"
    by (simp add: ordered_desc_map)
  have "\<forall>d\<in>set ?final. get_or 0 (rerank_score d) = 0"
  proof
    fix d assume "d \<in> set ?final"
    then have "d \<in> set fused" by (meson in_set_takeD)
    then show "get_or 0 (rerank_score d) = 0" using nor by (simp add: get_or_def)
  qed
  then have "\<forall>v\<in>set (map (\<lambda>d. get_or 0 (rerank_score d)) ?final). v = 0"
    by simp
  then have "\<forall>v\<in>set (map (\<lambda>c. rerank_value (relevance c)) (format_results ?final)). v = 0"
    by (simp only: rk)
  then have z: "\<forall>c\<in>set (format_results ?final). rerank_value (relevance c) = 0"
    by simp
  have "length ?final = min (nat top_k) (min 80 (length fused))"
    by (simp only: length_take)
  then have l1: "length (format_results ?final) = min (nat top_k) (min 80 (length fused))"
    by (simp only: len)
  have l2: "length (format_results ?final) \<le> nat top_k"
    using len by simp
  show ?thesis
  proof (intro exI[of _ ?resp] exI[of _ fused] conjI)
    show "reciprocal_rank_fusion [bm25s, vectors] 60 = Inr fused" by (rule f)
    show "hybrid_search (engine_init True (Inl e)) (Inr bm25s) (Inr vectors) query top_k
        = Inr ?resp" by (rule run)
    show "map result_chunk_id (citations ?resp) = map chunk_id ?final"
      using ids by simp
    show "length (citations ?resp) = min (nat top_k) (min 80 (length fused))"
      using l1 by simp
    show "length (citations ?resp) \<le> nat top_k"
      using l2 by simp
    show "ordered_desc (\<lambda>c. rrf (relevance c)) (citations ?resp)"
      using o2 by simp
    show "\<forall>c\<in>set (citations ?resp). rerank_value (relevance c) = 0"
      using z by simp
    show "\<not> reranked_flag ?resp" by simp
  qed
qed


text \<open>
  The reranker's import fails; two lexical and two vector hits share the chunk \<open>x\<close>; with
  \<open>top_k = 2\<close> the search returns \<open>x\<close> and \<open>a1\<close>, the two best by RRF score, with rerank
  scores of 0.
\<close>

theorem search_without_reranker_witness:
  "(0::int) \<le> 2
   \<and> map rerank_score
        ([lexical_hit ''a1'' 3, lexical_hit ''x'' 1] @ [vector_hit ''x'' (9 / 10), vector_hit ''b2'' (1 / 2)])
       = [None, None, None, None]
   \<and> (\<exists>resp. hybrid_search (engine_init True (Inl ImportError))
          (Inr [lexical_hit ''a1'' 3, lexical_hit ''x'' 1])
          (Inr [vector_hit ''x'' (9 / 10), vector_hit ''b2'' (1 / 2)]) ''digital twin'' 2 = Inr resp
        \<and> map result_chunk_id (citations resp) = [''x'', ''a1'']
        \<and> list_all (\<lambda>c. rerank_value (relevance c) = 0) (citations resp)
        \<and> ordered_desc (\<lambda>c. rrf (relevance c)) (citations resp)
        \<and> \<not> reranked_flag resp)"
proof -
  let ?A = "[lexical_hit ''a1'' 3, lexical_hit ''x'' 1]"
  let ?B = "[vector_hit ''x'' (9 / 10), vector_hit ''b2'' (1 / 2)]"
  have h1: "(0::int) \<le> 2" by simp
  have h2: "\<forall>d\<in>set (?A @ ?B). rerank_score d = None"
    by (simp add: lexical_hit_def vector_hit_def bm25_result_def vector_result_def)
  have h3: "map rerank_score (?A @ ?B) = [None, None, None, None]"
    by (simp add: lexical_hit_def vector_hit_def bm25_result_def vector_result_def)
  have ev: "map chunk_id (projr (reciprocal_rank_fusion [?A, ?B] 60)) = [''x'', ''a1'', ''b2'']"
    by (simp add: rrf_eval)
  from search_without_reranker[OF h1 h2, of ImportError "''digital twin''"]
  obtain resp fused where
    f: "reciprocal_rank_fusion [?A, ?B] 60 = Inr fused"
    and run: "hybrid_search (engine_init True (Inl ImportError)) (Inr ?A) (Inr ?B) ''digital twin'' 2
        = Inr resp"
    and ids: "map result_chunk_id (citations resp) = map chunk_id (take (nat 2) (take 80 fused))"
    and z: "\<forall>c\<in>set (citations resp). rerank_value (relevance c) = 0"
    and o: "ordered_desc (\<lambda>c. rrf (relevance c)) (citations resp)"
    and fl: "\<not> reranked_flag resp"
    by (elim exE conjE)
  have "map chunk_id fused = [''x'', ''a1'', ''b2'']"
    using ev by (simp only: f sum.sel)
  then have i2: "map result_chunk_id (citations resp) = [''x'', ''a1'']"
    using ids by (simp add: take_map[symmetric])
  have la: "list_all (\<lambda>c. rerank_value (relevance c) = 0) (citations resp)"
    using z by (simp only: list_all_iff)
  show ?thesis
    by (intro conjI exI[of _ resp]) (rule h1 h3 run i2 la o fl)+
qed

text \<open>
  C4 (as stated) fails when the reranker was constructed and its service is down during
  the query: the exception of the scoring call is not caught and the search fails.
\<close>

theorem search_reranker_down_counterexample:
  "engine_init True (Inr unreachable_cohere)
     = \<lparr>use_reranker = True, the_reranker = Some unreachable_cohere\<rparr>
   \<and> hybrid_search (engine_init True (Inr unreachable_cohere))
        (Inr [lexical_hit ''x'' 1]) (Inr [vector_hit ''x'' (9 / 10)]) ''digital twin'' 2
     = Inl ConnectionError"
  by (simp add: engine_init_def hybrid_search_def rrf_eval py_take_def
      rerank_with_metadata_def rerank_def rerank_cohere_def unreachable_cohere_def)

end
